theory Spec2Isabelle
  imports Complex_Main "HOL-Library.AList"
begin

section \<open>JavaScript values\<close>

text \<open>
  The server (server/server.js) works on parsed JSON: the user store users.json, the
  request bodies and the responses.  A JSON value is modelled as it is after
  \<^verbatim>\<open>JSON.parse\<close>:
  \<^item> a string is the list of the bytes of its UTF-8 encoding (well-formed text);
  \<^item> a number is named by its canonical text, the result of \<^verbatim>\<open>String(n)\<close>
    (\<open>''0''\<close>, \<open>''57''\<close>, \<open>''1.5''\<close>); the server only tests numbers for
    truthiness, prints them, and writes percentages between 0 and 100;
  \<^item> an object is the list of its properties in insertion order.
  \<open>None\<close> of type \<open>json option\<close> is JavaScript's \<^verbatim>\<open>undefined\<close>.
\<close>

datatype json =
    JNull
  | JBool bool
  | JNum string
  | JStr string
  | JArr "json list"
  | JObj "(string \<times> json) list"

type_synonym obj = "(string \<times> json) list"

datatype error = TypeError

text \<open>\<^verbatim>\<open>!!v\<close>: the falsy values are undefined, null, false, 0, NaN and the empty string.\<close>

fun truthy :: "json option \<Rightarrow> bool" where
  "truthy None = False"
| "truthy (Some JNull) = False"
| "truthy (Some (JBool b)) = b"
| "truthy (Some (JNum n)) = (n \<noteq> ''0'' \<and> n \<noteq> ''NaN'')"
| "truthy (Some (JStr s)) = (s \<noteq> [])"
| "truthy (Some (JArr xs)) = True"
| "truthy (Some (JObj kvs)) = True"

text \<open>
  \<^verbatim>\<open>v.k\<close> for a value \<open>v\<close> that is not undefined: reading a property of null
  throws; a primitive or an array has none of the properties the server reads (id, title,
  description, completed, subTasks, ...).
\<close>

fun get_prop :: "json \<Rightarrow> string \<Rightarrow> error + json option" where
  "get_prop JNull k = Inl TypeError"
| "get_prop (JObj kvs) k = Inr (map_of kvs k)"
| "get_prop v k = Inr None"

text \<open>
  \<^verbatim>\<open>String(v)\<close>.  An array prints its elements separated by commas, null as the
  empty text; a parsed object prints as \<^verbatim>\<open>[object Object]\<close> (an object with a
  property called toString of its own is outside the model).
\<close>

fun join_comma :: "string list \<Rightarrow> string" where
  "join_comma [] = []"
| "join_comma [s] = s"
| "join_comma (s # t # ss) = s @ '','' @ join_comma (t # ss)"

fun String_json :: "json \<Rightarrow> string" where
  "String_json JNull = ''null''"
| "String_json (JBool b) = (if b then ''true'' else ''false'')"
| "String_json (JNum n) = n"
| "String_json (JStr s) = s"
| "String_json (JArr xs) = join_comma (map (\<lambda>x. if x = JNull then [] else String_json x) xs)"
| "String_json (JObj kvs) = ''[object Object]''"

definition String_js :: "json option \<Rightarrow> string" where
  "String_js v = (case v of None \<Rightarrow> ''undefined'' | Some x \<Rightarrow> String_json x)"

subsection \<open>String.prototype.trim\<close>

text \<open>
  The white space and line terminators of ECMAScript, as UTF-8: TAB, LF, VT, FF, CR,
  SPACE, U+00A0, U+1680, U+2000 to U+200A, U+2028, U+2029, U+202F, U+205F, U+3000, U+FEFF.
\<close>

definition white_space :: "string list" where
  "white_space =
     [[CHR 0x09], [CHR 0x0A], [CHR 0x0B], [CHR 0x0C], [CHR 0x0D], [CHR 0x20],
      [CHR 0xC2, CHR 0xA0], [CHR 0xE1, CHR 0x9A, CHR 0x80],
      [CHR 0xE2, CHR 0x80, CHR 0x80], [CHR 0xE2, CHR 0x80, CHR 0x81],
      [CHR 0xE2, CHR 0x80, CHR 0x82], [CHR 0xE2, CHR 0x80, CHR 0x83],
      [CHR 0xE2, CHR 0x80, CHR 0x84], [CHR 0xE2, CHR 0x80, CHR 0x85],
      [CHR 0xE2, CHR 0x80, CHR 0x86], [CHR 0xE2, CHR 0x80, CHR 0x87],
      [CHR 0xE2, CHR 0x80, CHR 0x88], [CHR 0xE2, CHR 0x80, CHR 0x89],
      [CHR 0xE2, CHR 0x80, CHR 0x8A], [CHR 0xE2, CHR 0x80, CHR 0xA8],
      [CHR 0xE2, CHR 0x80, CHR 0xA9], [CHR 0xE2, CHR 0x80, CHR 0xAF],
      [CHR 0xE2, CHR 0x81, CHR 0x9F], [CHR 0xE3, CHR 0x80, CHR 0x80],
      [CHR 0xEF, CHR 0xBB, CHR 0xBF]]"

text \<open>Drop white space from the front, one character (of 1, 2 or 3 bytes) at a time.\<close>

fun trim_start :: "string list \<Rightarrow> string \<Rightarrow> string" where
  "trim_start ws [] = []"
| "trim_start ws (c # cs) =
     (if [c] \<in> set ws then trim_start ws cs
      else if c # take 1 cs \<in> set ws then trim_start ws (drop 1 cs)
      else if c # take 2 cs \<in> set ws then trim_start ws (drop 2 cs)
      else c # cs)"

definition trim :: "string \<Rightarrow> string" where
  "trim s = rev (trim_start (map rev white_space) (rev (trim_start white_space s)))"

subsection \<open>Numbers\<close>

text \<open>
  The percentage is computed in IEEE 754 binary64.  A finite double that is not negative
  is written as a fraction \<open>(p, q)\<close> of integers, \<open>q > 0\<close>.  \<open>to_double\<close> rounds an
  exact result to the nearest double: 53 significant bits, ties to the even significand
  (the values met here, between 2^-1022 and 2^1024, are in the normal range).
\<close>

type_synonym double = "int \<times> int"

function bitlen :: "int \<Rightarrow> int" where
  "bitlen n = (if n \<le> 0 then 0 else 1 + bitlen (n div 2))"
  by pat_completeness auto
termination
  by (relation "measure nat") auto

declare bitlen.simps [simp del]

text \<open>The integer nearest to \<open>a / b\<close> for \<open>b > 0\<close>, a tie going to the even one.\<close>

definition div_ties_even :: "int \<Rightarrow> int \<Rightarrow> int" where
  "div_ties_even a b =
     (let q = a div b; r = a mod b
      in if 2 * r < b then q else if b < 2 * r then q + 1 else if even q then q else q + 1)"

text \<open>\<open>binade p q\<close> is the \<open>e\<close> with \<open>2^e \<le> p / q < 2^(e + 1)\<close>, for \<open>p, q > 0\<close>.\<close>

definition binade :: "int \<Rightarrow> int \<Rightarrow> int" where
  "binade p q =
     (let e = bitlen p - bitlen q
      in if (if 0 \<le> e then q * 2 ^ nat e \<le> p else q \<le> p * 2 ^ nat (- e)) then e else e - 1)"

definition to_double :: "int \<times> int \<Rightarrow> double" where
  "to_double x = (case x of (p, q) \<Rightarrow>
     if p = 0 then (0, 1)
     else let s = 52 - binade p q
          in if 0 \<le> s then (div_ties_even (p * 2 ^ nat s) q, 2 ^ nat s)
             else (div_ties_even p (q * 2 ^ nat (- s)) * 2 ^ nat (- s), 1))"

text \<open>\<^verbatim>\<open>a / b\<close> and \<^verbatim>\<open>x * k\<close> on doubles, and \<^verbatim>\<open>Math.round\<close>: the nearest integer, a tie going up.\<close>

definition js_div :: "nat \<Rightarrow> nat \<Rightarrow> double" where
  "js_div a b = to_double (int a, int b)"

definition js_mul :: "double \<Rightarrow> nat \<Rightarrow> double" where
  "js_mul x k = (case x of (p, q) \<Rightarrow> to_double (p * int k, q))"

definition Math_round :: "double \<Rightarrow> int" where
  "Math_round x = (case x of (p, q) \<Rightarrow> (2 * p + q) div (2 * q))"

text \<open>The canonical text of a natural number.\<close>

function show_nat :: "nat \<Rightarrow> string" where
  "show_nat n = (if n < 10 then [char_of (48 + n)] else show_nat (n div 10) @ [char_of (48 + n mod 10)])"
  by pat_completeness auto
termination
  by (relation "measure id") auto

declare show_nat.simps [simp del]

section \<open>The completion percentage\<close>

text \<open>
  \<^verbatim>\<open>calculatePercentage\<close> of the task view, and the same computation inlined in
  \<^verbatim>\<open>PUT /api/tasks/:id\<close> (server.js, "Calculate percentage"):
  \<^verbatim>\<open>
  if (subTasks.length === 0) return 0;
  const completedCount = subTasks.filter((st) => st.completed).length;
  return Math.round((completedCount / subTasks.length) * 100);
  \<close>
  The subtasks are objects here (after normalisation on the server, by their type in the
  client), so \<^verbatim>\<open>st.completed\<close> does not throw.
\<close>

definition completed :: "json \<Rightarrow> bool" where
  "completed st = (case get_prop st ''completed'' of Inl e \<Rightarrow> False | Inr v \<Rightarrow> truthy v)"

definition calculatePercentage :: "json list \<Rightarrow> int" where
  "calculatePercentage subTasks =
     (if length subTasks = 0 then 0
      else let completedCount = length (filter completed subTasks)
           in Math_round (js_mul (js_div completedCount (length subTasks)) 100))"

text \<open>
  The percentage in the words of the specification:
  \<open>round (100 * completed_count / total_count)\<close> when \<open>total_count > 0\<close>, else \<open>0\<close>,
  in exact arithmetic (a half rounds up; 2 of 3 is 67).
\<close>

definition spec_percentage :: "json list \<Rightarrow> int" where
  "spec_percentage subTasks =
     (let total = int (length subTasks); done = int (length (filter completed subTasks))
      in if total = 0 then 0 else (2 * (100 * done) + total) div (2 * total))"

section \<open>The progress ring\<close>

text \<open>
  CircularProgress.tsx colours the ring by
  \<^verbatim>\<open>percentage > 50 ? "text-green-600 dark:text-green-500" : "text-red-600 dark:text-red-500"\<close>.
\<close>

definition green :: string where
  "green = ''text-green-600 dark:text-green-500''"

definition red :: string where
  "red = ''text-red-600 dark:text-red-500''"

definition progress_colour :: "rat \<Rightarrow> string" where
  "progress_colour percentage = (if 50 < percentage then green else red)"

section \<open>The session codec\<close>

subsection \<open>Base64\<close>

text \<open>
  \<^verbatim>\<open>Buffer.from(text).toString("base64")\<close>: three bytes make four digits of six bits,
  the last group padded with \<^verbatim>\<open>=\<close>.  The alphabet is A-Z, a-z, 0-9, + and /.
\<close>

definition base64_digit :: "nat \<Rightarrow> char" where
  "base64_digit n =
     (if n < 26 then char_of (65 + n)
      else if n < 52 then char_of (97 + (n - 26))
      else if n < 62 then char_of (48 + (n - 52))
      else if n = 62 then CHR ''+'' else CHR ''/'')"

fun base64_encode :: "string \<Rightarrow> string" where
  "base64_encode [] = []"
| "base64_encode [a] =
     (let x = (of_char a :: nat)
      in [base64_digit (x div 4), base64_digit (x mod 4 * 16), CHR ''='', CHR ''=''])"
| "base64_encode [a, b] =
     (let x = (of_char a :: nat); y = (of_char b :: nat)
      in [base64_digit (x div 4), base64_digit (x mod 4 * 16 + y div 16),
          base64_digit (y mod 16 * 4), CHR ''=''])"
| "base64_encode (a # b # c # rest) =
     (let x = (of_char a :: nat); y = (of_char b :: nat); z = (of_char c :: nat)
      in [base64_digit (x div 4), base64_digit (x mod 4 * 16 + y div 16),
          base64_digit (y mod 16 * 4 + z div 64), base64_digit (z mod 64)])
     @ base64_encode rest"

text \<open>
  \<^verbatim>\<open>Buffer.from(token, "base64")\<close> never throws: Node reads the digits of both the
  standard and the URL-safe alphabet, skips any other character, and stops at the first
  \<^verbatim>\<open>=\<close>.  Four digits make three bytes; two or three digits left over make one or
  two bytes, one digit left over makes none.
\<close>

definition unbase64 :: "char \<Rightarrow> nat option" where
  "unbase64 c =
     (let v = (of_char c :: nat)
      in if 65 \<le> v \<and> v \<le> 90 then Some (v - 65)
         else if 97 \<le> v \<and> v \<le> 122 then Some (v - 71)
         else if 48 \<le> v \<and> v \<le> 57 then Some (v + 4)
         else if c = CHR ''+'' \<or> c = CHR ''-'' then Some 62
         else if c = CHR ''/'' \<or> c = CHR ''_'' then Some 63
         else None)"

fun base64_digits :: "string \<Rightarrow> nat list" where
  "base64_digits [] = []"
| "base64_digits (c # cs) =
     (case unbase64 c of
        Some v \<Rightarrow> v # base64_digits cs
      | None \<Rightarrow> if c = CHR ''='' then [] else base64_digits cs)"

fun base64_bytes :: "nat list \<Rightarrow> string" where
  "base64_bytes (p # q # r # s # rest) =
     [char_of (p * 4 + q div 16), char_of (q mod 16 * 16 + r div 4), char_of (r mod 4 * 64 + s)]
     @ base64_bytes rest"
| "base64_bytes [p, q, r] = [char_of (p * 4 + q div 16), char_of (q mod 16 * 16 + r div 4)]"
| "base64_bytes [p, q] = [char_of (p * 4 + q div 16)]"
| "base64_bytes ds = []"

definition base64_decode :: "string \<Rightarrow> string" where
  "base64_decode s = base64_bytes (base64_digits s)"

subsection \<open>Tokens\<close>

text \<open>
  What the server takes from outside: the clock, the random sources, the environment
  variable and whether the write of users.json succeeds.
\<close>

record env =
  now :: nat
  random_hex :: string
  uuids :: "nat \<Rightarrow> string"
  today :: string
  time_of_day :: string
  production :: bool
  disk_ok :: bool

text \<open>
  \<^verbatim>\<open>
  const generateSessionToken = (userId) => {
    const timestamp = Date.now();
    const random = crypto.randomBytes(16).toString("hex");
    return Buffer.from(`${userId}:${timestamp}:${random}`).toString("base64");
  };
  \<close>
\<close>

definition generateSessionToken :: "env \<Rightarrow> json option \<Rightarrow> string" where
  "generateSessionToken e userId =
     base64_encode (String_js userId @ '':'' @ show_nat (now e) @ '':'' @ random_hex e)"

text \<open>
  \<^verbatim>\<open>
  const decoded = Buffer.from(sessionToken, "base64").toString();
  const [userId] = decoded.split(":");
  \<close>
  The first field is what comes before the first colon.  The decoded bytes are taken as
  they are (Node replaces a sequence that is not well-formed UTF-8 by U+FFFD).
\<close>

definition decode_userId :: "string \<Rightarrow> string" where
  "decode_userId sessionToken = takeWhile (\<lambda>c. c \<noteq> CHR '':'') (base64_decode sessionToken)"

section \<open>The server\<close>

subsection \<open>Responses\<close>

record cookie_options =
  httpOnly :: bool
  secure :: bool
  maxAge :: "nat option"
  sameSite :: string
  path :: string
  domain :: string

datatype cookie_action =
    NoCookie
  | ClearCookie
  | SetCookie string cookie_options

record response =
  status :: nat
  body :: json
  cookie :: cookie_action

text \<open>\<^verbatim>\<open>res.status(n).json({ error: msg })\<close>, with or without \<^verbatim>\<open>res.clearCookie("session", ...)\<close> before it.\<close>

definition reject :: "nat \<Rightarrow> string \<Rightarrow> response" where
  "reject n msg = \<lparr>status = n, body = JObj [(''error'', JStr msg)], cookie = NoCookie\<rparr>"

definition reject_clear :: "nat \<Rightarrow> string \<Rightarrow> response" where
  "reject_clear n msg = \<lparr>status = n, body = JObj [(''error'', JStr msg)], cookie = ClearCookie\<rparr>"

subsection \<open>Helpers of the language\<close>

text \<open>\<^verbatim>\<open>Array.prototype.findIndex\<close>, \<open>None\<close> for -1; the second takes a callback that may throw.\<close>

fun findIndex :: "('a \<Rightarrow> bool) \<Rightarrow> 'a list \<Rightarrow> nat option" where
  "findIndex P [] = None"
| "findIndex P (x # xs) = (if P x then Some 0 else map_option Suc (findIndex P xs))"

fun findIndexE :: "('a \<Rightarrow> error + bool) \<Rightarrow> 'a list \<Rightarrow> error + nat option" where
  "findIndexE P [] = Inr None"
| "findIndexE P (x # xs) =
     (case P x of
        Inl e \<Rightarrow> Inl e
      | Inr True \<Rightarrow> Inr (Some 0)
      | Inr False \<Rightarrow> (case findIndexE P xs of Inl e \<Rightarrow> Inl e | Inr i \<Rightarrow> Inr (map_option Suc i)))"

text \<open>
  \<^verbatim>\<open>a === b\<close>.  Two objects or arrays that come from different parses (the request body and
  the store) are never the same object.
\<close>

fun primitive :: "json option \<Rightarrow> bool" where
  "primitive (Some (JArr xs)) = False"
| "primitive (Some (JObj kvs)) = False"
| "primitive v = True"

definition strict_eq :: "json option \<Rightarrow> json option \<Rightarrow> bool" where
  "strict_eq a b = (a = b \<and> primitive a \<and> a \<noteq> Some (JNum ''NaN''))"

text \<open>
  \<^verbatim>\<open>v?.trim()\<close>: undefined for undefined and null, the trimmed text for a string; any
  other value has no method trim and the call throws.
\<close>

fun opt_trim :: "json option \<Rightarrow> error + string option" where
  "opt_trim None = Inr None"
| "opt_trim (Some JNull) = Inr None"
| "opt_trim (Some (JStr s)) = Inr (Some (trim s))"
| "opt_trim (Some v) = Inl TypeError"

text \<open>\<^verbatim>\<open>a || b\<close> where \<open>b\<close> is a value.\<close>

definition or_else :: "json option \<Rightarrow> json \<Rightarrow> json" where
  "or_else a b = (case a of None \<Rightarrow> b | Some x \<Rightarrow> if truthy a then x else b)"

text \<open>
  \<^verbatim>\<open>{ ...a, ...b }\<close>: the properties of \<open>b\<close> are written over those of \<open>a\<close>, a new
  one at the end.  \<open>set_prop\<close> writes one property; a property set to undefined is left out
  by \<^verbatim>\<open>JSON.stringify\<close>, through which the store and every response go.
\<close>

definition spread :: "obj \<Rightarrow> obj \<Rightarrow> obj" where
  "spread a b = fold (\<lambda>kv. AList.update (fst kv) (snd kv)) b a"

definition set_prop :: "string \<Rightarrow> json option \<Rightarrow> obj \<Rightarrow> obj" where
  "set_prop k v ob = (case v of None \<Rightarrow> AList.delete k ob | Some x \<Rightarrow> AList.update k x ob)"

subsection \<open>The auth gate\<close>

text \<open>
  The user store is the array of user objects that \<^verbatim>\<open>readUsers\<close> returns (the empty
  array when the file cannot be read).
  \<^verbatim>\<open>
  const authenticate = async (req, res, next) => {
    const sessionToken = req.cookies?.session;
    if (!sessionToken) {
      return res.status(401).json({ error: "Not authenticated" });
    }
    try {
      const decoded = Buffer.from(sessionToken, "base64").toString();
      const [userId] = decoded.split(":");
      if (!userId) {
        res.clearCookie("session", { path: "/", domain: "localhost" });
        return res.status(401).json({ error: "Invalid session token" });
      }
      const users = await readUsers();
      const user = users.find((u) => String(u.id) === userId);
      if (!user) {
        res.clearCookie("session", { path: "/", domain: "localhost" });
        return res.status(401).json({ error: "User not found" });
      }
      req.user = user;
      next();
    } catch (err) { ... }
  \<close>
  The cookie is absent or a string (a value that starts with \<^verbatim>\<open>j:\<close>, which
  cookie-parser turns into parsed JSON, is outside the model).  Nothing in the
  \<^verbatim>\<open>try\<close> block throws on a store of objects.  The result is the rejection, or
  the user attached to the request.
\<close>

definition has_id :: "string \<Rightarrow> obj \<Rightarrow> bool" where
  "has_id userId u = (String_js (map_of u ''id'') = userId)"

definition authenticate :: "obj list \<Rightarrow> string option \<Rightarrow> response + obj" where
  "authenticate users session =
     (case session of
        None \<Rightarrow> Inl (reject 401 ''Not authenticated'')
      | Some sessionToken \<Rightarrow>
          if sessionToken = [] then Inl (reject 401 ''Not authenticated'')
          else let userId = decode_userId sessionToken
               in if userId = [] then Inl (reject_clear 401 ''Invalid session token'')
                  else (case find (has_id userId) users of
                          None \<Rightarrow> Inl (reject_clear 401 ''User not found'')
                        | Some user \<Rightarrow> Inr user))"

subsection \<open>Login and session check\<close>

text \<open>
  The user sent back: \<^verbatim>\<open>const { password: _, ...userData } = user;\<close> and then
  \<^verbatim>\<open>{ ...userData, tasks: userData.tasks || [] }\<close>.
\<close>

definition userData :: "obj \<Rightarrow> obj" where
  "userData user = filter (\<lambda>kv. fst kv \<noteq> ''password'') user"

definition public_user :: "obj \<Rightarrow> json" where
  "public_user user =
     JObj (AList.update ''tasks'' (or_else (map_of (userData user) ''tasks'') (JArr [])) (userData user))"

text \<open>
  \<^verbatim>\<open>
  app.post("/api/login", async (req, res) => {
    const { email, password, rememberMe } = req.body;
    if (!email?.trim() || !password) {
      return res.status(400).json({ error: "Email and password are required" });
    }
    try {
      const users = await readUsers();
      const user = users.find((u) => u.email === email.trim() && u.password === password);
      if (!user) {
        return res.status(401).json({ error: "Invalid credentials" });
      }
      const sessionToken = generateSessionToken(user.id);
      res.cookie("session", sessionToken, {
        httpOnly: true,
        secure: process.env.NODE_ENV === "production",
        maxAge: rememberMe ? 1 * 24 * 60 * 60 * 1000 : undefined, // 30 days if rememberMe
        sameSite: "lax", path: "/", domain: "localhost",
      });
      const { password: _, ...userData } = user;
      res.json({ message: "Login successful", user: { ...userData, tasks: userData.tasks || [] } });
    } catch (err) { ... }
  \<close>
  The request body is a JSON object.  The test of the email is outside the \<^verbatim>\<open>try\<close>
  block: an email that is neither a string nor null throws there, and no response is sent.
\<close>

definition credentials :: "string \<Rightarrow> json option \<Rightarrow> obj \<Rightarrow> bool" where
  "credentials email password u =
     (strict_eq (map_of u ''email'') (Some (JStr email)) \<and> strict_eq (map_of u ''password'') password)"

definition login :: "env \<Rightarrow> obj list \<Rightarrow> obj \<Rightarrow> error + response" where
  "login e users req_body =
     (let email = map_of req_body ''email'';
          password = map_of req_body ''password'';
          rememberMe = map_of req_body ''rememberMe''
      in case opt_trim email of
           Inl err \<Rightarrow> Inl err
         | Inr None \<Rightarrow> Inr (reject 400 ''Email and password are required'')
         | Inr (Some trimmed) \<Rightarrow>
             if trimmed = [] \<or> \<not> truthy password
             then Inr (reject 400 ''Email and password are required'')
             else (case find (credentials trimmed password) users of
                     None \<Rightarrow> Inr (reject 401 ''Invalid credentials'')
                   | Some user \<Rightarrow>
                       Inr \<lparr>status = 200,
                            body = JObj [(''message'', JStr ''Login successful''),
                                         (''user'', public_user user)],
                            cookie = SetCookie (generateSessionToken e (map_of user ''id''))
                              \<lparr>httpOnly = True, secure = production e,
                               maxAge = (if truthy rememberMe then Some (1 * 24 * 60 * 60 * 1000) else None),
                               sameSite = ''lax'', path = ''/'', domain = ''localhost''\<rparr>\<rparr>))"

text \<open>
  \<^verbatim>\<open>
  app.get("/api/check-session", async (req, res) => {
    const sessionToken = req.cookies?.session;
    if (!sessionToken) {
      return res.status(200).json({ user: null });
    }
    try {
      const decoded = Buffer.from(sessionToken, "base64").toString();
      const [userId] = decoded.split(":");
      const users = await readUsers();
      const user = users.find((u) => String(u.id) === userId);
      if (!user) {
        res.clearCookie("session", { path: "/", domain: "localhost" });
        return res.status(200).json({ user: null });
      }
      const { password, ...userData } = user;
      res.json({ user: { ...userData, tasks: userData.tasks || [] } });
    } catch (err) { ... }
  \<close>
\<close>

definition check_session :: "obj list \<Rightarrow> string option \<Rightarrow> response" where
  "check_session users session =
     (case session of
        None \<Rightarrow> \<lparr>status = 200, body = JObj [(''user'', JNull)], cookie = NoCookie\<rparr>
      | Some sessionToken \<Rightarrow>
          if sessionToken = []
          then \<lparr>status = 200, body = JObj [(''user'', JNull)], cookie = NoCookie\<rparr>
          else (case find (has_id (decode_userId sessionToken)) users of
                  None \<Rightarrow> \<lparr>status = 200, body = JObj [(''user'', JNull)], cookie = ClearCookie\<rparr>
                | Some user \<Rightarrow>
                    \<lparr>status = 200, body = JObj [(''user'', public_user user)], cookie = NoCookie\<rparr>))"

subsection \<open>The task routes\<close>

text \<open>
  Each route runs behind \<^verbatim>\<open>app.use("/api/tasks", authenticate)\<close> with the user
  \<open>req_user\<close> attached, reads the store again, and returns its response and the store
  it leaves.  Every handler is wrapped in \<^verbatim>\<open>try { ... } catch\<close>, which answers 500.
  A request body is a JSON object (\<^verbatim>\<open>express.json\<close> gives the empty object when
  there is none; an array as body is outside the model).  When \<^verbatim>\<open>writeUsers\<close>
  fails, the file is taken to be left as it was.
\<close>

text \<open>\<^verbatim>\<open>app.get("/api/tasks", (req, res) => { res.json({ tasks: req.user.tasks || [] }); });\<close>\<close>

definition list_tasks :: "obj \<Rightarrow> response" where
  "list_tasks req_user =
     \<lparr>status = 200,
      body = JObj [(''tasks'', or_else (map_of req_user ''tasks'') (JArr []))],
      cookie = NoCookie\<rparr>"

text \<open>\<^verbatim>\<open>users.findIndex((u) => String(u.id) === String(req.user.id))\<close>\<close>

definition userIndex :: "obj list \<Rightarrow> obj \<Rightarrow> nat option" where
  "userIndex users req_user = findIndex (has_id (String_js (map_of req_user ''id''))) users"

text \<open>
  \<^verbatim>\<open>[...(tasks || [])]\<close>: the elements of an array; a non-empty string spreads into its
  characters (a character starts at every byte that is not a UTF-8 continuation byte); any
  other truthy value is not iterable.
\<close>

definition continuation :: "char \<Rightarrow> bool" where
  "continuation b = (128 \<le> (of_char b :: nat) \<and> (of_char b :: nat) < 192)"

function utf8_chars :: "string \<Rightarrow> string list" where
  "utf8_chars [] = []"
| "utf8_chars (c # cs) = (c # takeWhile continuation cs) # utf8_chars (dropWhile continuation cs)"
  by pat_completeness auto
termination
  by (relation "measure length") (auto simp add: length_dropWhile_le less_Suc_eq_le)

definition spread_or_empty :: "json option \<Rightarrow> error + json list" where
  "spread_or_empty v =
     (if \<not> truthy v then Inr []
      else case v of
             Some (JArr xs) \<Rightarrow> Inr xs
           | Some (JStr s) \<Rightarrow> Inr (map JStr (utf8_chars s))
           | _ \<Rightarrow> Inl TypeError)"

text \<open>
  \<^verbatim>\<open>
  app.post("/api/tasks", async (req, res) => {
    try {
      const { title, date, time, icon } = req.body;
      if (!title?.trim()) {
        return res.status(400).json({ error: "Title is required" });
      }
      const users = await readUsers();
      const userIndex = users.findIndex((u) => String(u.id) === String(req.user.id));
      const newTask = {
        id: crypto.randomUUID(),
        title: title.trim(),
        subTasks: [],
        percentage: 0,
        date: date || new Date().toISOString().split("T")[0],
        time: time || new Date().toLocaleTimeString([], { hour: "2-digit", minute: "2-digit" }),
        icon: icon || undefined,
      };
      users[userIndex].tasks = [...(users[userIndex].tasks || []), newTask];
      await writeUsers(users);
      res.status(201).json({ message: "Task created", task: newTask });
    } catch (err) {
      res.status(500).json({ error: "Failed to create task" });
    }
  \<close>
\<close>

definition newTask :: "env \<Rightarrow> string \<Rightarrow> obj \<Rightarrow> obj" where
  "newTask e title req_body =
     set_prop ''icon'' (if truthy (map_of req_body ''icon'') then map_of req_body ''icon'' else None)
       [(''id'', JStr (uuids e 0)),
        (''title'', JStr title),
        (''subTasks'', JArr []),
        (''percentage'', JNum ''0''),
        (''date'', or_else (map_of req_body ''date'') (JStr (today e))),
        (''time'', or_else (map_of req_body ''time'') (JStr (time_of_day e)))]"

definition create_task :: "env \<Rightarrow> obj list \<Rightarrow> obj \<Rightarrow> obj \<Rightarrow> response \<times> obj list" where
  "create_task e users req_user req_body =
     (case opt_trim (map_of req_body ''title'') of
        Inl err \<Rightarrow> (reject 500 ''Failed to create task'', users)
      | Inr None \<Rightarrow> (reject 400 ''Title is required'', users)
      | Inr (Some title) \<Rightarrow>
          if title = [] then (reject 400 ''Title is required'', users)
          else (case userIndex users req_user of
                  None \<Rightarrow> (reject 500 ''Failed to create task'', users)
                | Some i \<Rightarrow>
                    (case spread_or_empty (map_of (users ! i) ''tasks'') of
                       Inl err \<Rightarrow> (reject 500 ''Failed to create task'', users)
                     | Inr tasks \<Rightarrow>
                         if \<not> disk_ok e then (reject 500 ''Failed to create task'', users)
                         else (\<lparr>status = 201,
                                body = JObj [(''message'', JStr ''Task created''),
                                             (''task'', JObj (newTask e title req_body))],
                                cookie = NoCookie\<rparr>,
                               users[i := AList.update ''tasks''
                                            (JArr (tasks @ [JObj (newTask e title req_body)]))
                                            (users ! i)]))))"

text \<open>\<^verbatim>\<open>tasks.findIndex((t) => t.id === taskId)\<close>; reading the id of a null entry throws.\<close>

definition task_has_id :: "string \<Rightarrow> json \<Rightarrow> error + bool" where
  "task_has_id taskId t =
     (case get_prop t ''id'' of Inl err \<Rightarrow> Inl err | Inr v \<Rightarrow> Inr (strict_eq v (Some (JStr taskId))))"

text \<open>
  \<^verbatim>\<open>users[userIndex].tasks.findIndex(...)\<close>: without the user (index -1), without the
  property \<^verbatim>\<open>tasks\<close>, or with one that is not an array, the call throws.  The result is
  the index of the user, the user's tasks and the index of the task.
\<close>

definition taskIndex :: "obj list \<Rightarrow> obj \<Rightarrow> string \<Rightarrow> error + (nat \<times> json list \<times> nat option)" where
  "taskIndex users req_user taskId =
     (case userIndex users req_user of
        None \<Rightarrow> Inl TypeError
      | Some i \<Rightarrow>
          (case map_of (users ! i) ''tasks'' of
             Some (JArr tasks) \<Rightarrow>
               (case findIndexE (task_has_id taskId) tasks of
                  Inl err \<Rightarrow> Inl err
                | Inr j \<Rightarrow> Inr (i, tasks, j))
           | _ \<Rightarrow> Inl TypeError))"

text \<open>
  The normalisation of the subtasks in \<^verbatim>\<open>PUT /api/tasks/:id\<close>:
  \<^verbatim>\<open>
  updatedTask.subTasks = updatedTask.subTasks.map((st) => ({
    id: st.id || crypto.randomUUID(),
    title: st.title?.trim() || "",
    description: st.description?.trim() || "",
    completed: !!st.completed,
  }));
  \<close>
  \<open>fresh\<close> is the identifier that \<^verbatim>\<open>crypto.randomUUID()\<close> returns when it is called,
  which is when the id is falsy; the list function counts the calls, the \<open>n\<close>-th taking
  \<open>uuid n\<close>.  Every exception here is a TypeError.
\<close>

definition trimmed_or_empty :: "json option \<Rightarrow> error + string" where
  "trimmed_or_empty v =
     (case opt_trim v of Inl err \<Rightarrow> Inl err | Inr None \<Rightarrow> Inr [] | Inr (Some s) \<Rightarrow> Inr s)"

definition normalize_subTask :: "string \<Rightarrow> json \<Rightarrow> error + json" where
  "normalize_subTask fresh st =
     (case (get_prop st ''id'', get_prop st ''title'', get_prop st ''description'',
            get_prop st ''completed'') of
        (Inr i, Inr t, Inr d, Inr c) \<Rightarrow>
          (case (trimmed_or_empty t, trimmed_or_empty d) of
             (Inr title, Inr description) \<Rightarrow>
               Inr (JObj [(''id'', or_else i (JStr fresh)),
                          (''title'', JStr title),
                          (''description'', JStr description),
                          (''completed'', JBool (truthy c))])
           | _ \<Rightarrow> Inl TypeError)
      | _ \<Rightarrow> Inl TypeError)"

definition calls_randomUUID :: "json \<Rightarrow> bool" where
  "calls_randomUUID st = (case get_prop st ''id'' of Inl err \<Rightarrow> False | Inr i \<Rightarrow> \<not> truthy i)"

fun normalize_subTasks :: "(nat \<Rightarrow> string) \<Rightarrow> nat \<Rightarrow> json list \<Rightarrow> error + json list" where
  "normalize_subTasks uuid n [] = Inr []"
| "normalize_subTasks uuid n (st # sts) =
     (case normalize_subTask (uuid n) st of
        Inl err \<Rightarrow> Inl err
      | Inr st' \<Rightarrow>
          (case normalize_subTasks uuid (if calls_randomUUID st then Suc n else n) sts of
             Inl err \<Rightarrow> Inl err
           | Inr sts' \<Rightarrow> Inr (st' # sts')))"

text \<open>
  \<^verbatim>\<open>
  app.put("/api/tasks/:id", async (req, res) => {
    try {
      const { id: taskId } = req.params;
      const updates = req.body;
      if (!updates || typeof updates !== "object") { ... 400 ... }
      const users = await readUsers();
      const userIndex = users.findIndex((u) => String(u.id) === String(req.user.id));
      const taskIndex = users[userIndex].tasks.findIndex((t) => t.id === taskId);
      if (taskIndex === -1) {
        return res.status(404).json({ error: "Task not found" });
      }
      const originalTask = users[userIndex].tasks[taskIndex];
      let updatedTask = {
        ...originalTask,
        ...updates,
        id: originalTask.id, // Prevent ID overwrite
        subTasks: updates.subTasks || originalTask.subTasks,
      };
      if (Array.isArray(updatedTask.subTasks)) { ... normalisation ... }
      else { updatedTask.subTasks = []; }
      if (updatedTask.subTasks.length > 0) { ... percentage ... }
      else { updatedTask.percentage = 0; }
      users[userIndex].tasks[taskIndex] = updatedTask;
      await writeUsers(users);
      res.json({ message: "Task updated", task: updatedTask });
    } catch (err) {
      res.status(500).json({ error: "Failed to update task" });
    }
  \<close>
  The request body is a JSON object, so the test of the payload passes.  The task found
  has an id and so is an object.
\<close>

definition own_props :: "json \<Rightarrow> obj" where
  "own_props v = (case v of JObj kvs \<Rightarrow> kvs | _ \<Rightarrow> [])"

definition merged_task :: "obj \<Rightarrow> obj \<Rightarrow> obj" where
  "merged_task originalTask updates =
     set_prop ''id'' (map_of originalTask ''id'') (spread originalTask updates)"

definition chosen_subTasks :: "obj \<Rightarrow> obj \<Rightarrow> json option" where
  "chosen_subTasks originalTask updates =
     (if truthy (map_of updates ''subTasks'') then map_of updates ''subTasks''
      else map_of originalTask ''subTasks'')"

definition normalized :: "env \<Rightarrow> json option \<Rightarrow> error + json list" where
  "normalized e subTasks =
     (case subTasks of Some (JArr sts) \<Rightarrow> normalize_subTasks (uuids e) 0 sts | _ \<Rightarrow> Inr [])"

definition updatedTask :: "obj \<Rightarrow> obj \<Rightarrow> json list \<Rightarrow> obj" where
  "updatedTask originalTask updates subTasks =
     AList.update ''percentage'' (JNum (show_nat (nat (calculatePercentage subTasks))))
       (AList.update ''subTasks'' (JArr subTasks) (merged_task originalTask updates))"

definition update_task :: "env \<Rightarrow> obj list \<Rightarrow> obj \<Rightarrow> string \<Rightarrow> obj \<Rightarrow> response \<times> obj list" where
  "update_task e users req_user taskId updates =
     (case taskIndex users req_user taskId of
        Inl err \<Rightarrow> (reject 500 ''Failed to update task'', users)
      | Inr (i, tasks, None) \<Rightarrow> (reject 404 ''Task not found'', users)
      | Inr (i, tasks, Some j) \<Rightarrow>
          (let originalTask = own_props (tasks ! j)
           in case normalized e (chosen_subTasks originalTask updates) of
                Inl err \<Rightarrow> (reject 500 ''Failed to update task'', users)
              | Inr subTasks \<Rightarrow>
                  if \<not> disk_ok e then (reject 500 ''Failed to update task'', users)
                  else (\<lparr>status = 200,
                         body = JObj [(''message'', JStr ''Task updated''),
                                      (''task'', JObj (updatedTask originalTask updates subTasks))],
                         cookie = NoCookie\<rparr>,
                        users[i := AList.update ''tasks''
                                     (JArr (tasks[j := JObj (updatedTask originalTask updates subTasks)]))
                                     (users ! i)])))"

text \<open>
  \<^verbatim>\<open>
  app.delete("/api/tasks/:id", async (req, res) => {
    try {
      const { id: taskId } = req.params;
      const users = await readUsers();
      const userIndex = users.findIndex((u) => String(u.id) === String(req.user.id));
      const taskIndex = users[userIndex].tasks.findIndex((t) => t.id === taskId);
      if (taskIndex === -1) {
        return res.status(404).json({ error: "Task not found" });
      }
      users[userIndex].tasks.splice(taskIndex, 1);
      await writeUsers(users);
      res.json({ message: "Task deleted" });
    } catch (err) {
      res.status(500).json({ error: "Failed to delete task" });
    }
  \<close>
\<close>

definition delete_task :: "env \<Rightarrow> obj list \<Rightarrow> obj \<Rightarrow> string \<Rightarrow> response \<times> obj list" where
  "delete_task e users req_user taskId =
     (case taskIndex users req_user taskId of
        Inl err \<Rightarrow> (reject 500 ''Failed to delete task'', users)
      | Inr (i, tasks, None) \<Rightarrow> (reject 404 ''Task not found'', users)
      | Inr (i, tasks, Some j) \<Rightarrow>
          if \<not> disk_ok e then (reject 500 ''Failed to delete task'', users)
          else (\<lparr>status = 200, body = JObj [(''message'', JStr ''Task deleted'')], cookie = NoCookie\<rparr>,
                users[i := AList.update ''tasks'' (JArr (take j tasks @ drop (Suc j) tasks)) (users ! i)]))"

text \<open>The routes behind the gate: a request with its session cookie, on a store.\<close>

definition GET_tasks :: "obj list \<Rightarrow> string option \<Rightarrow> response" where
  "GET_tasks users session =
     (case authenticate users session of Inl r \<Rightarrow> r | Inr req_user \<Rightarrow> list_tasks req_user)"

definition POST_tasks :: "env \<Rightarrow> obj list \<Rightarrow> string option \<Rightarrow> obj \<Rightarrow> response \<times> obj list" where
  "POST_tasks e users session req_body =
     (case authenticate users session of
        Inl r \<Rightarrow> (r, users)
      | Inr req_user \<Rightarrow> create_task e users req_user req_body)"

definition PUT_task :: "env \<Rightarrow> obj list \<Rightarrow> string option \<Rightarrow> string \<Rightarrow> obj \<Rightarrow> response \<times> obj list" where
  "PUT_task e users session taskId req_body =
     (case authenticate users session of
        Inl r \<Rightarrow> (r, users)
      | Inr req_user \<Rightarrow> update_task e users req_user taskId req_body)"

definition DELETE_task :: "env \<Rightarrow> obj list \<Rightarrow> string option \<Rightarrow> string \<Rightarrow> response \<times> obj list" where
  "DELETE_task e users session taskId =
     (case authenticate users session of
        Inl r \<Rightarrow> (r, users)
      | Inr req_user \<Rightarrow> delete_task e users req_user taskId)"

section \<open>Sample data\<close>

text \<open>A store of two users, one with a task and one without the property \<^verbatim>\<open>tasks\<close>.\<close>

definition env0 :: env where
  "env0 = \<lparr>now = 1700000000000, random_hex = ''00112233445566778899aabbccddeeff'',
           uuids = (\<lambda>n. if n = 0 then ''uuid-0'' else if n = 1 then ''uuid-1'' else ''uuid-n''),
           today = ''2024-01-01'', time_of_day = ''09:30'',
           production = False, disk_ok = True\<rparr>"

definition subtask1 :: json where
  "subtask1 =
     JObj [(''id'', JStr ''s1''), (''title'', JStr '' milk ''), (''description'', JStr ''two litres''),
           (''completed'', JBool False)]"

definition task1 :: obj where
  "task1 =
     [(''id'', JStr ''t1''), (''title'', JStr ''Shopping''), (''subTasks'', JArr [subtask1]),
      (''percentage'', JNum ''0''), (''date'', JStr ''2024-01-01''), (''time'', JStr ''09:00'')]"

definition alice :: obj where
  "alice =
     [(''id'', JStr ''u1''), (''email'', JStr ''alice@example.com''), (''password'', JStr ''secret''),
      (''tasks'', JArr [JObj task1])]"

definition bob :: obj where
  "bob = [(''id'', JStr ''u2''), (''email'', JStr ''bob@example.com''), (''password'', JStr ''hunter2'')]"

definition store0 :: "obj list" where
  "store0 = [alice, bob]"

definition session_of :: "string \<Rightarrow> string" where
  "session_of userId = generateSessionToken env0 (Some (JStr userId))"

definition eggs_request :: obj where
  "eggs_request = [(''subTasks'', JArr [JObj [(''title'', JStr '' eggs ''), (''completed'', JStr ''yes'')]])]"

definition rename_request :: obj where
  "rename_request = [(''id'', JStr ''t9''), (''title'', JStr ''Groceries'')]"

definition task1_renamed :: obj where
  "task1_renamed =
     [(''id'', JStr ''t1''), (''title'', JStr ''Groceries''),
      (''subTasks'', JArr [JObj [(''id'', JStr ''s1''), (''title'', JStr ''milk''),
                                 (''description'', JStr ''two litres''), (''completed'', JBool False)]]),
      (''percentage'', JNum ''0''), (''date'', JStr ''2024-01-01''), (''time'', JStr ''09:00'')]"

definition done_subTask :: json where
  "done_subTask =
     JObj [(''id'', JStr ''s2''), (''title'', JStr ''done''), (''description'', JStr ''finished''),
           (''completed'', JBool True)]"

definition open_subTask :: json where
  "open_subTask =
     JObj [(''id'', JStr ''s3''), (''title'', JStr ''open''), (''description'', JStr ''pending''),
           (''completed'', JBool False)]"

definition forty_subTasks :: "json list" where
  "forty_subTasks = replicate 23 done_subTask @ replicate 17 open_subTask"

definition token_without_id :: string where
  "token_without_id = base64_encode '':1700000000000:ff''"

text \<open>
  What a test reads off a value or a response: a property (of a value that is not null),
  whether a task has a given id, the user in the body of a response.
\<close>

definition field :: "json \<Rightarrow> string \<Rightarrow> json option" where
  "field v k = (case get_prop v k of Inl err \<Rightarrow> None | Inr x \<Rightarrow> x)"

definition is_task :: "string \<Rightarrow> json \<Rightarrow> bool" where
  "is_task taskId t = (field t ''id'' = Some (JStr taskId))"

definition returned_user :: "response \<Rightarrow> json option" where
  "returned_user r = (case get_prop (body r) ''user'' of Inl err \<Rightarrow> None | Inr v \<Rightarrow> v)"

definition login_request :: obj where
  "login_request =
     [(''email'', JStr ''alice@example.com''), (''password'', JStr ''secret''), (''rememberMe'', JBool True)]"

section \<open>Theorems\<close>

subsection \<open>Base64 and the session codec\<close>

lemma high_part: "b < k \<Longrightarrow> (a * k + b) div k = (a::nat)"
  by simp

lemma low_part: "b < k \<Longrightarrow> (a * k + b) mod k = (b::nat)"
  by simp

lemma div16_bound: "y < 256 \<Longrightarrow> (y::nat) div 16 < 16"
  by simp

lemma div64_bound: "y < 256 \<Longrightarrow> (y::nat) div 64 < 4"
  by simp

lemma byte1: "y < 256 \<Longrightarrow> (x::nat) div 4 * 4 + (x mod 4 * 16 + y div 16) div 16 = x"
  by (simp add: high_part div16_bound)

lemma byte2:
  "y < 256 \<Longrightarrow> z < 256 \<Longrightarrow>
   ((x::nat) mod 4 * 16 + y div 16) mod 16 * 16 + (y mod 16 * 4 + z div 64) div 4 = y"
  by (simp add: high_part div64_bound)

lemma byte3: "z < 256 \<Longrightarrow> ((y::nat) mod 16 * 4 + z div 64) mod 4 * 64 + z mod 64 = z"
  by (simp add: low_part div64_bound)

lemma digit1: "x < 256 \<Longrightarrow> (x::nat) div 4 < 64"
  by simp

lemma digit2: "y < 256 \<Longrightarrow> (x::nat) mod 4 * 16 + y div 16 < 64"
  using div16_bound [of y] mod_less_divisor [of 4 x] by linarith

lemma digit3: "z < 256 \<Longrightarrow> (y::nat) mod 16 * 4 + z div 64 < 64"
  using div64_bound [of z] mod_less_divisor [of 16 y] by linarith

lemma digit2_last: "(x::nat) mod 4 * 16 < 64"
  using mod_less_divisor [of 4 x] by linarith

lemma digit3_last: "(x::nat) mod 16 * 4 < 64"
  using mod_less_divisor [of 16 x] by linarith

lemma unbase64_digit: "n < 64 \<Longrightarrow> unbase64 (base64_digit n) = Some n"
  by (auto simp add: unbase64_def base64_digit_def Let_def)

lemma unbase64_pad: "unbase64 CHR ''='' = None"
  by (simp add: unbase64_def)

lemma base64_roundtrip: "base64_decode (base64_encode s) = s"
proof (induction s rule: base64_encode.induct)
  case 1
  show ?case by (simp add: base64_decode_def)
next
  case (2 a)
  show ?case
    using byte1 [of 0 "of_char a"]
    by (simp add: base64_decode_def Let_def unbase64_digit unbase64_pad digit1 digit2_last)
next
  case (3 a b)
  show ?case
    using byte1 [of "of_char b" "of_char a"] byte2 [of "of_char b" 0 "of_char a"]
    by (simp add: base64_decode_def Let_def unbase64_digit unbase64_pad digit1 digit2 digit3_last)
next
  case (4 a b c rest)
  then show ?case
    using byte1 [of "of_char b" "of_char a"] byte2 [of "of_char b" "of_char c" "of_char a"]
      byte3 [of "of_char c" "of_char b"]
    by (simp add: base64_decode_def Let_def unbase64_digit digit1 digit2 digit3)
qed

lemma base64_encode_empty: "base64_encode s = [] \<longleftrightarrow> s = []"
  by (induction s rule: base64_encode.induct) (simp_all add: Let_def)

lemma first_field: "CHR '':'' \<notin> set u \<Longrightarrow> takeWhile (\<lambda>c. c \<noteq> CHR '':'') (u @ CHR '':'' # rest) = u"
  by (induction u) auto

lemma decode_encoded_fields:
  "CHR '':'' \<notin> set u \<Longrightarrow> decode_userId (base64_encode (u @ CHR '':'' # rest)) = u"
  unfolding decode_userId_def base64_roundtrip by (rule first_field)

lemma token_not_empty: "generateSessionToken e userId \<noteq> []"
  by (simp add: generateSessionToken_def base64_encode_empty)

subsection \<open>The auth gate, login and session check\<close>

lemma decode_session_of: "CHR '':'' \<notin> set u \<Longrightarrow> decode_userId (session_of u) = u"
  by (simp add: session_of_def generateSessionToken_def String_js_def decode_encoded_fields)

lemma session_of_not_empty: "session_of u \<noteq> []"
  by (simp add: session_of_def token_not_empty)

text \<open>
  C9.  Session codec round trip: for a user id without a colon, decoding the token issued
  for it (base64-decode, split on the colon, first field) gives the user id back, whatever
  the timestamp and the nonce in the token are; the gate reads nothing else from the token,
  so two tokens for one user issued at any two times are treated alike: none expires.
\<close>

theorem session_codec_roundtrip:
  assumes "CHR '':'' \<notin> set (String_js userId)"
  shows "decode_userId (generateSessionToken e userId) = String_js userId
     \<and> decode_userId (base64_encode (String_js userId @ '':'' @ timestamp @ '':'' @ nonce)) = String_js userId
     \<and> authenticate users (Some (generateSessionToken e userId)) =
         authenticate users (Some (generateSessionToken e' userId))"
proof -
  have d: "decode_userId (generateSessionToken x userId) = String_js userId" for x
    using assms by (simp add: generateSessionToken_def decode_encoded_fields)
  have "authenticate users (Some (generateSessionToken e userId)) =
         authenticate users (Some (generateSessionToken e' userId))"
    by (simp add: authenticate_def d token_not_empty)
  with d assms show ?thesis
    by (simp add: decode_encoded_fields)
qed

text \<open>The round trip for the user id \<open>u1\<close>, and a token issued at time 0.\<close>

theorem session_codec_roundtrip_witness:
  "decode_userId (generateSessionToken env0 (Some (JStr ''u1''))) = ''u1''
   \<and> decode_userId (base64_encode (''u1'' @ '':'' @ ''0'' @ '':'' @ ''ff'')) = ''u1''
   \<and> authenticate store0 (Some (generateSessionToken env0 (Some (JStr ''u1'')))) =
       authenticate store0 (Some (generateSessionToken (env0\<lparr>now := 0\<rparr>) (Some (JStr ''u1''))))"
  using session_codec_roundtrip [of "Some (JStr ''u1'')" env0 "''0''" "''ff''" store0 "env0\<lparr>now := 0\<rparr>"]
  by (simp add: String_js_def)

text \<open>
  C2, as amended.  The gate answers 401 in three cases: (a) without a session cookie (or
  with an empty one), and then it leaves the cookie alone; (b) when the cookie decodes to an
  empty user id and (c) when the decoded id matches no stored user, and in these two it
  clears the cookie.  When a stored user matches, that user's record is attached and the
  request goes on.
\<close>

theorem auth_gate:
  "(session = None \<or> session = Some [] \<longrightarrow>
      authenticate users session = Inl (reject 401 ''Not authenticated''))
   \<and> (session = Some tok \<and> tok \<noteq> [] \<and> decode_userId tok = [] \<longrightarrow>
      authenticate users session = Inl (reject_clear 401 ''Invalid session token''))
   \<and> (session = Some tok \<and> tok \<noteq> [] \<and> decode_userId tok \<noteq> [] \<and>
      (\<forall>u \<in> set users. String_js (map_of u ''id'') \<noteq> decode_userId tok) \<longrightarrow>
      authenticate users session = Inl (reject_clear 401 ''User not found''))
   \<and> (session = Some tok \<and> tok \<noteq> [] \<and> decode_userId tok \<noteq> [] \<and>
      u \<in> set users \<and> String_js (map_of u ''id'') = decode_userId tok \<longrightarrow>
      (\<exists>user. authenticate users session = Inr user \<and> user \<in> set users \<and>
              String_js (map_of user ''id'') = decode_userId tok))
   \<and> status (reject 401 msg) = 401 \<and> cookie (reject 401 msg) = NoCookie
   \<and> status (reject_clear 401 msg) = 401 \<and> cookie (reject_clear 401 msg) = ClearCookie"
proof -
  have found: "\<exists>user. find (has_id i) users = Some user \<and> user \<in> set users \<and> has_id i user"
    if "u \<in> set users" "has_id i u" for i
  proof (cases "find (has_id i) users")
    case None
    with that show ?thesis by (auto simp add: find_None_iff)
  next
    case (Some user)
    then show ?thesis by (auto simp add: find_Some_iff)
  qed
  have missing: "find (has_id i) users = None" if "\<forall>u \<in> set users. String_js (map_of u ''id'') \<noteq> i" for i
    using that by (auto simp add: find_None_iff has_id_def)
  show ?thesis
    using found [of "decode_userId tok"] missing [of "decode_userId tok"]
    by (auto simp add: authenticate_def reject_def reject_clear_def has_id_def Let_def)
qed

lemma decode_token_without_id: "decode_userId token_without_id = []"
  unfolding token_without_id_def using decode_encoded_fields [of "[]" "''1700000000000:ff''"] by simp

lemma token_without_id_not_empty: "token_without_id \<noteq> []"
  by (simp add: token_without_id_def base64_encode_empty)

lemma store0_ids:
  "String_js (map_of alice ''id'') = ''u1''" "String_js (map_of bob ''id'') = ''u2''"
  by (simp_all add: alice_def bob_def String_js_def)

text \<open>The four cases of the gate on the sample store.\<close>

theorem auth_gate_witness:
  "authenticate store0 None = Inl (reject 401 ''Not authenticated'')
   \<and> authenticate store0 (Some token_without_id) = Inl (reject_clear 401 ''Invalid session token'')
   \<and> authenticate store0 (Some (session_of ''nobody'')) = Inl (reject_clear 401 ''User not found'')
   \<and> (\<exists>user. authenticate store0 (Some (session_of ''u1'')) = Inr user \<and> user \<in> set store0 \<and>
              String_js (map_of user ''id'') = ''u1'')
   \<and> cookie (reject 401 ''Not authenticated'') = NoCookie
   \<and> cookie (reject_clear 401 ''User not found'') = ClearCookie"
proof -
  have a: "authenticate store0 None = Inl (reject 401 ''Not authenticated'')"
    using auth_gate [of None store0] by simp
  have b: "authenticate store0 (Some token_without_id) = Inl (reject_clear 401 ''Invalid session token'')"
    using auth_gate [of "Some token_without_id" store0 token_without_id]
    by (simp add: decode_token_without_id token_without_id_not_empty)
  have c: "authenticate store0 (Some (session_of ''nobody'')) = Inl (reject_clear 401 ''User not found'')"
    using auth_gate [of "Some (session_of ''nobody'')" store0 "session_of ''nobody''"]
    by (simp add: decode_session_of session_of_not_empty store0_def store0_ids)
  have d: "\<exists>user. authenticate store0 (Some (session_of ''u1'')) = Inr user \<and> user \<in> set store0 \<and>
              String_js (map_of user ''id'') = ''u1''"
    using auth_gate [of "Some (session_of ''u1'')" store0 "session_of ''u1''" alice]
    by (simp add: decode_session_of session_of_not_empty store0_def store0_ids)
  have e: "cookie (reject 401 ''Not authenticated'') = NoCookie"
    using auth_gate [of None store0 "[]" alice "''Not authenticated''"] by simp
  have f: "cookie (reject_clear 401 ''User not found'') = ClearCookie"
    using auth_gate [of None store0 "[]" alice "''User not found''"] by simp
  from a b c d e f show ?thesis by simp
qed

text \<open>C2 as stated has the cookie cleared in case (a): without a cookie the answer clears nothing.\<close>

theorem auth_gate_no_cookie_counterexample:
  "authenticate store0 None = Inl (reject 401 ''Not authenticated'')
   \<and> status (reject 401 ''Not authenticated'') = 401
   \<and> cookie (reject 401 ''Not authenticated'') \<noteq> ClearCookie"
  by (simp add: authenticate_def reject_def)

lemma userData_no_password: "map_of (userData user) ''password'' = None"
  by (induction user) (auto simp add: userData_def)

lemma public_user_no_password:
  "public_user user = JObj u \<Longrightarrow> map_of u ''password'' = None"
  by (auto simp add: public_user_def update_conv' userData_no_password)

text \<open>
  C10.  A successful login returns a user object without the property password, and so
  does every session check that returns a user.
\<close>

theorem password_not_returned:
  "(login e users req_body = Inr r \<and> status r = 200 \<longrightarrow>
      (\<exists>u. returned_user r = Some (JObj u) \<and> map_of u ''password'' = None))
   \<and> (returned_user (check_session users session) \<noteq> Some JNull \<longrightarrow>
      (\<exists>u. returned_user (check_session users session) = Some (JObj u) \<and> map_of u ''password'' = None))"
proof -
  have pu: "\<exists>u. public_user user = JObj u \<and> map_of u ''password'' = None" for user
    using public_user_no_password [of user] by (simp add: public_user_def)
  have a: "\<exists>u. returned_user r = Some (JObj u) \<and> map_of u ''password'' = None"
    if "login e users req_body = Inr r" "status r = 200"
    using that pu
    by (auto simp add: login_def Let_def returned_user_def reject_def
        split: sum.splits option.splits if_splits)
  have b: "\<exists>u. returned_user (check_session users session) = Some (JObj u) \<and> map_of u ''password'' = None"
    if "returned_user (check_session users session) \<noteq> Some JNull"
    using that pu
    by (auto simp add: check_session_def returned_user_def split: option.splits if_splits)
  from a b show ?thesis by blast
qed

lemma trim_alice: "trim ''alice@example.com'' = ''alice@example.com''"
  by (simp add: trim_def white_space_def)

lemma login_alice:
  "login env0 store0 login_request =
     Inr \<lparr>status = 200,
          body = JObj [(''message'', JStr ''Login successful''), (''user'', public_user alice)],
          cookie = SetCookie (session_of ''u1'')
            \<lparr>httpOnly = True, secure = False, maxAge = Some 86400000,
             sameSite = ''lax'', path = ''/'', domain = ''localhost''\<rparr>\<rparr>"
  by (simp add: login_def login_request_def trim_alice store0_def alice_def bob_def credentials_def
      strict_eq_def session_of_def env0_def Let_def)

lemma check_session_alice:
  "check_session store0 (Some (session_of ''u1'')) =
     \<lparr>status = 200, body = JObj [(''user'', public_user alice)], cookie = NoCookie\<rparr>"
  by (simp add: check_session_def session_of_not_empty decode_session_of store0_def has_id_def store0_ids)

text \<open>The stored record of the sample user holds the password; neither response does.\<close>

theorem password_not_returned_witness:
  "map_of alice ''password'' = Some (JStr ''secret'')
   \<and> (\<exists>r u. login env0 store0 login_request = Inr r \<and> status r = 200 \<and>
             returned_user r = Some (JObj u) \<and> map_of u ''password'' = None)
   \<and> (\<exists>u. returned_user (check_session store0 (Some (session_of ''u1''))) = Some (JObj u) \<and>
           map_of u ''password'' = None)"
proof -
  let ?r = "\<lparr>status = 200,
          body = JObj [(''message'', JStr ''Login successful''), (''user'', public_user alice)],
          cookie = SetCookie (session_of ''u1'')
            \<lparr>httpOnly = True, secure = False, maxAge = Some 86400000,
             sameSite = ''lax'', path = ''/'', domain = ''localhost''\<rparr>\<rparr>"
  have a: "map_of alice ''password'' = Some (JStr ''secret'')"
    by (simp add: alice_def)
  have b: "\<exists>u. returned_user ?r = Some (JObj u) \<and> map_of u ''password'' = None"
    using password_not_returned [of env0 store0 login_request ?r] login_alice by simp
  have "returned_user (check_session store0 (Some (session_of ''u1''))) \<noteq> Some JNull"
    by (simp add: check_session_alice returned_user_def public_user_def)
  then have c: "\<exists>u. returned_user (check_session store0 (Some (session_of ''u1''))) = Some (JObj u) \<and>
           map_of u ''password'' = None"
    using password_not_returned [of env0 store0 login_request ?r "Some (session_of ''u1'')"]
    by simp
  from a b c login_alice show ?thesis by auto
qed

text \<open>
  The session check accepts the cookie that a login sets, and answers with a user of the
  same id (the first one in the store), when the id holds no colon.
\<close>

lemma login_then_check_session:
  assumes "login e users req_body = Inr r" and "cookie r = SetCookie token opts"
  shows "\<exists>user. user \<in> set users \<and> returned_user r = Some (public_user user)
          \<and> token = generateSessionToken e (map_of user ''id'')
          \<and> maxAge opts = (if truthy (map_of req_body ''rememberMe'') then Some 86400000 else None)
          \<and> (CHR '':'' \<notin> set (String_js (map_of user ''id'')) \<longrightarrow>
               (\<exists>user'. user' \<in> set users
                  \<and> returned_user (check_session users (Some token)) = Some (public_user user')
                  \<and> String_js (map_of user' ''id'') = String_js (map_of user ''id'')))"
proof -
  from assms obtain user where
    f: "find (credentials (trim (case map_of req_body ''email'' of Some (JStr s) \<Rightarrow> s | _ \<Rightarrow> []))
            (map_of req_body ''password'')) users = Some user"
    and r: "returned_user r = Some (public_user user)"
      "token = generateSessionToken e (map_of user ''id'')"
      "maxAge opts = (if truthy (map_of req_body ''rememberMe'') then Some 86400000 else None)"
    by (cases "map_of req_body ''email''" rule: opt_trim.cases)
      (auto simp add: login_def Let_def reject_def returned_user_def
        split: option.splits if_splits)
  from f have mem: "user \<in> set users"
    by (auto simp add: find_Some_iff)
  have "\<exists>user'. user' \<in> set users
          \<and> returned_user (check_session users (Some token)) = Some (public_user user')
          \<and> String_js (map_of user' ''id'') = String_js (map_of user ''id'')"
    if colon: "CHR '':'' \<notin> set (String_js (map_of user ''id''))"
  proof -
    from colon have d: "decode_userId token = String_js (map_of user ''id'')"
      unfolding r(2) by (simp add: generateSessionToken_def decode_encoded_fields)
    from mem obtain user' where
      u: "find (has_id (String_js (map_of user ''id''))) users = Some user'"
      by (cases "find (has_id (String_js (map_of user ''id''))) users")
        (auto simp add: find_None_iff has_id_def)
    then have "user' \<in> set users" "has_id (String_js (map_of user ''id'')) user'"
      by (auto simp add: find_Some_iff)
    with u d show ?thesis
      by (auto simp add: check_session_def r(2) token_not_empty returned_user_def has_id_def)
  qed
  with mem r show ?thesis by blast
qed

text \<open>
  C5.  A login with \<open>rememberMe = true\<close> sets a cookie with a \<open>maxAge\<close> of several
  days, and the session check with that cookie returns the same user: the second part
  holds, but the \<open>maxAge\<close> is 86400000 ms, one day (the comment beside the constant
  says 30 days).
\<close>

theorem remember_me_cookie_one_day:
  "login env0 store0 login_request =
     Inr \<lparr>status = 200,
          body = JObj [(''message'', JStr ''Login successful''), (''user'', public_user alice)],
          cookie = SetCookie (session_of ''u1'')
            \<lparr>httpOnly = True, secure = False, maxAge = Some (1 * 24 * 60 * 60 * 1000),
             sameSite = ''lax'', path = ''/'', domain = ''localhost''\<rparr>\<rparr>
   \<and> (1 * 24 * 60 * 60 * 1000 :: nat) < 2 * 24 * 60 * 60 * 1000
   \<and> truthy (map_of login_request ''rememberMe'')
   \<and> check_session store0 (Some (session_of ''u1'')) =
       \<lparr>status = 200, body = JObj [(''user'', public_user alice)], cookie = NoCookie\<rparr>"
  using login_alice check_session_alice by (simp add: login_request_def)

subsection \<open>The task routes\<close>

lemma findIndex_Some:
  "findIndex P xs = Some i \<Longrightarrow> i < length xs \<and> P (xs ! i) \<and> (\<forall>j<i. \<not> P (xs ! j))"
proof (induction xs arbitrary: i)
  case Nil
  then show ?case by simp
next
  case (Cons x xs)
  show ?case
  proof (cases "P x")
    case True
    with Cons.prems show ?thesis by simp
  next
    case False
    with Cons.prems obtain k where k: "findIndex P xs = Some k" "i = Suc k"
      by auto
    from Cons.IH [OF k(1)] False k(2) show ?thesis
      by (auto simp add: nth_Cons split: nat.splits)
  qed
qed

lemma findIndex_None: "findIndex P xs = None \<longleftrightarrow> (\<forall>x \<in> set xs. \<not> P x)"
  by (induction xs) auto

lemma find_findIndex:
  "find P xs = Some x \<Longrightarrow> \<exists>i. findIndex P xs = Some i \<and> xs ! i = x"
  by (induction xs) (auto split: if_splits)

lemma find_update:
  "findIndex P xs = Some i \<Longrightarrow> P y \<Longrightarrow> find P (xs[i := y]) = Some y"
proof (induction xs arbitrary: i)
  case Nil
  then show ?case by simp
next
  case (Cons x xs)
  then show ?case
    by (cases "P x") (auto split: if_splits)
qed

lemma has_id_update_tasks: "has_id i (AList.update ''tasks'' v u) = has_id i u"
  by (simp add: has_id_def update_conv')

text \<open>The user that the gate attaches is the one that the handlers find again in the store.\<close>

lemma authenticated_user:
  assumes "authenticate users session = Inr req_user"
  shows "\<exists>i tok. session = Some tok \<and> tok \<noteq> [] \<and> has_id (decode_userId tok) req_user \<and>
           userIndex users req_user = Some i \<and> i < length users \<and> users ! i = req_user \<and>
           findIndex (has_id (decode_userId tok)) users = Some i"
proof -
  from assms obtain tok where tok: "session = Some tok" "tok \<noteq> []" "decode_userId tok \<noteq> []"
    and f: "find (has_id (decode_userId tok)) users = Some req_user"
    by (auto simp add: authenticate_def Let_def split: option.splits if_splits)
  from f have h: "has_id (decode_userId tok) req_user"
    by (auto simp add: find_Some_iff)
  then have same: "String_js (map_of req_user ''id'') = decode_userId tok"
    by (simp add: has_id_def)
  from find_findIndex [OF f] obtain i where
    i: "findIndex (has_id (decode_userId tok)) users = Some i" "users ! i = req_user"
    by blast
  from findIndex_Some [OF i(1)] have "i < length users" by simp
  with tok h i same show ?thesis
    by (simp add: userIndex_def)
qed

lemma authenticate_after_write:
  assumes "authenticate users session = Inr req_user" "userIndex users req_user = Some i"
  shows "authenticate (users[i := AList.update ''tasks'' v (users ! i)]) session =
           Inr (AList.update ''tasks'' v req_user)"
proof -
  from authenticated_user [OF assms(1)] assms(2) obtain tok where
    tok: "session = Some tok" "tok \<noteq> []" "has_id (decode_userId tok) req_user"
      "users ! i = req_user" "findIndex (has_id (decode_userId tok)) users = Some i"
    by auto
  have ne': "decode_userId tok \<noteq> []"
    using assms(1) tok(1,2) by (auto simp add: authenticate_def Let_def split: if_splits)
  have "find (has_id (decode_userId tok)) (users[i := AList.update ''tasks'' v req_user]) =
          Some (AList.update ''tasks'' v req_user)"
    using tok(5) tok(3) by (intro find_update) (simp_all add: has_id_update_tasks)
  with tok ne' show ?thesis
    by (simp add: authenticate_def)
qed

lemma newTask_fields:
  "map_of (newTask e title req_body) ''id'' = Some (JStr (uuids e 0))"
  "map_of (newTask e title req_body) ''title'' = Some (JStr title)"
  "map_of (newTask e title req_body) ''subTasks'' = Some (JArr [])"
  "map_of (newTask e title req_body) ''percentage'' = Some (JNum ''0'')"
  by (simp_all add: newTask_def set_prop_def update_conv' delete_conv' split: option.splits)

lemma list_tasks_array:
  "map_of u ''tasks'' = Some (JArr ts) \<Longrightarrow>
   list_tasks u = \<lparr>status = 200, body = JObj [(''tasks'', JArr ts)], cookie = NoCookie\<rparr>"
  by (simp add: list_tasks_def or_else_def)

text \<open>
  C3.  Round trip of create and list: for an authenticated user (whose record has no tasks
  yet, or an array of tasks) and a title that is not empty once trimmed, the creation
  answers 201 with the new task, and reading the list with the same session right after
  returns the old tasks followed by that very task: same id, same trimmed title, no
  subtasks, percentage 0.  The write of the store is taken to succeed.
\<close>

theorem create_then_list:
  assumes "authenticate users session = Inr req_user"
    and "map_of req_body ''title'' = Some (JStr title)" and "trim title \<noteq> []"
    and "map_of req_user ''tasks'' = None \<and> tasks = [] \<or> map_of req_user ''tasks'' = Some (JArr tasks)"
    and "disk_ok e"
  shows "\<exists>users'.
      POST_tasks e users session req_body =
        (\<lparr>status = 201,
          body = JObj [(''message'', JStr ''Task created''),
                       (''task'', JObj (newTask e (trim title) req_body))],
          cookie = NoCookie\<rparr>, users')
    \<and> GET_tasks users' session =
        \<lparr>status = 200,
         body = JObj [(''tasks'', JArr (tasks @ [JObj (newTask e (trim title) req_body)]))],
         cookie = NoCookie\<rparr>
    \<and> map_of (newTask e (trim title) req_body) ''id'' = Some (JStr (uuids e 0))
    \<and> map_of (newTask e (trim title) req_body) ''title'' = Some (JStr (trim title))
    \<and> map_of (newTask e (trim title) req_body) ''subTasks'' = Some (JArr [])
    \<and> map_of (newTask e (trim title) req_body) ''percentage'' = Some (JNum ''0'')"
proof -
  let ?task = "JObj (newTask e (trim title) req_body)"
  from authenticated_user [OF assms(1)] obtain i where
    i: "userIndex users req_user = Some i" "users ! i = req_user"
    by blast
  have sp: "spread_or_empty (map_of (users ! i) ''tasks'') = Inr tasks"
    using assms(4) i(2) by (auto simp add: spread_or_empty_def)
  let ?users' = "users[i := AList.update ''tasks'' (JArr (tasks @ [?task])) (users ! i)]"
  have post: "POST_tasks e users session req_body =
        (\<lparr>status = 201,
          body = JObj [(''message'', JStr ''Task created''), (''task'', ?task)],
          cookie = NoCookie\<rparr>, ?users')"
    using assms(1,2,3,5) i(1) sp by (simp add: POST_tasks_def create_task_def)
  have "authenticate ?users' session = Inr (AList.update ''tasks'' (JArr (tasks @ [?task])) req_user)"
    using authenticate_after_write [OF assms(1) i(1)] .
  then have get: "GET_tasks ?users' session =
        \<lparr>status = 200, body = JObj [(''tasks'', JArr (tasks @ [?task]))], cookie = NoCookie\<rparr>"
    by (simp add: GET_tasks_def list_tasks_array update_conv')
  from post get show ?thesis
    by (simp add: newTask_fields)
qed

lemma authenticate_bob: "authenticate store0 (Some (session_of ''u2'')) = Inr bob"
  by (simp add: authenticate_def session_of_not_empty decode_session_of store0_def has_id_def store0_ids)

lemma authenticate_alice: "authenticate store0 (Some (session_of ''u1'')) = Inr alice"
  by (simp add: authenticate_def session_of_not_empty decode_session_of store0_def has_id_def store0_ids)

lemma trim_buy_milk: "trim '' Buy milk '' = ''Buy milk''"
  by (simp add: trim_def white_space_def)

text \<open>The sample user without tasks creates the first one and reads it back.\<close>

theorem create_then_list_witness:
  "\<exists>users'.
      POST_tasks env0 store0 (Some (session_of ''u2'')) [(''title'', JStr '' Buy milk '')] =
        (\<lparr>status = 201,
          body = JObj [(''message'', JStr ''Task created''),
                       (''task'', JObj (newTask env0 ''Buy milk'' [(''title'', JStr '' Buy milk '')]))],
          cookie = NoCookie\<rparr>, users')
    \<and> GET_tasks users' (Some (session_of ''u2'')) =
        \<lparr>status = 200,
         body = JObj [(''tasks'', JArr [JObj (newTask env0 ''Buy milk'' [(''title'', JStr '' Buy milk '')])])],
         cookie = NoCookie\<rparr>
    \<and> newTask env0 ''Buy milk'' [(''title'', JStr '' Buy milk '')] =
        [(''id'', JStr ''uuid-0''), (''title'', JStr ''Buy milk''), (''subTasks'', JArr []),
         (''percentage'', JNum ''0''), (''date'', JStr ''2024-01-01''), (''time'', JStr ''09:30'')]"
proof -
  have n: "newTask env0 ''Buy milk'' [(''title'', JStr '' Buy milk '')] =
        [(''id'', JStr ''uuid-0''), (''title'', JStr ''Buy milk''), (''subTasks'', JArr []),
         (''percentage'', JNum ''0''), (''date'', JStr ''2024-01-01''), (''time'', JStr ''09:30'')]"
    by (simp add: newTask_def set_prop_def or_else_def env0_def)
  have d: "disk_ok env0" by (simp add: env0_def)
  have t: "map_of bob ''tasks'' = None \<and> ([]::json list) = [] \<or> map_of bob ''tasks'' = Some (JArr [])"
    by (simp add: bob_def)
  have ti: "map_of [(''title'', JStr '' Buy milk '')] ''title'' = Some (JStr '' Buy milk '')"
    by simp
  have tr: "trim '' Buy milk '' \<noteq> []"
    by (simp add: trim_buy_milk)
  from create_then_list [OF authenticate_bob ti tr t d] obtain users' where
    "POST_tasks env0 store0 (Some (session_of ''u2'')) [(''title'', JStr '' Buy milk '')] =
        (\<lparr>status = 201,
          body = JObj [(''message'', JStr ''Task created''),
                       (''task'', JObj (newTask env0 ''Buy milk'' [(''title'', JStr '' Buy milk '')]))],
          cookie = NoCookie\<rparr>, users')"
    "GET_tasks users' (Some (session_of ''u2'')) =
        \<lparr>status = 200,
         body = JObj [(''tasks'', JArr [JObj (newTask env0 ''Buy milk'' [(''title'', JStr '' Buy milk '')])])],
         cookie = NoCookie\<rparr>"
    unfolding trim_buy_milk by auto
  with n show ?thesis by blast
qed

lemma task_has_id_not_null:
  "JNull \<noteq> t \<Longrightarrow> task_has_id taskId t = Inr (is_task taskId t)"
  by (cases t) (auto simp add: task_has_id_def is_task_def field_def strict_eq_def)

lemma findIndexE_no_null:
  "JNull \<notin> set ts \<Longrightarrow> findIndexE (task_has_id taskId) ts = Inr (findIndex (is_task taskId) ts)"
  by (induction ts) (simp_all add: task_has_id_not_null)

lemma taskIndex_on_array:
  assumes "authenticate users session = Inr req_user"
    and "map_of req_user ''tasks'' = Some (JArr tasks)" and "JNull \<notin> set tasks"
  shows "\<exists>i. userIndex users req_user = Some i \<and> users ! i = req_user \<and>
           taskIndex users req_user taskId = Inr (i, tasks, findIndex (is_task taskId) tasks)"
proof -
  from authenticated_user [OF assms(1)] obtain i where
    i: "userIndex users req_user = Some i" "users ! i = req_user"
    by blast
  with assms(2,3) show ?thesis
    by (simp add: taskIndex_def findIndexE_no_null)
qed

text \<open>
  Deleting on a caller whose record holds an array of tasks (none of them null): an id that
  no task has is answered 404 and the store stays as it is; otherwise the first task with
  the id is taken out of the list, and the others stay in their order.
\<close>

lemma delete_task_on_array:
  assumes "authenticate users session = Inr req_user"
    and "map_of req_user ''tasks'' = Some (JArr tasks)" and "JNull \<notin> set tasks"
  shows "(findIndex (is_task taskId) tasks = None \<longrightarrow>
            DELETE_task e users session taskId = (reject 404 ''Task not found'', users))
       \<and> (findIndex (is_task taskId) tasks = Some j \<and> disk_ok e \<longrightarrow>
            (\<exists>users'. DELETE_task e users session taskId =
                 (\<lparr>status = 200, body = JObj [(''message'', JStr ''Task deleted'')], cookie = NoCookie\<rparr>,
                  users')
               \<and> GET_tasks users' session =
                   \<lparr>status = 200, body = JObj [(''tasks'', JArr (take j tasks @ drop (Suc j) tasks))],
                    cookie = NoCookie\<rparr>))"
proof -
  from taskIndex_on_array [OF assms] obtain i where
    i: "userIndex users req_user = Some i" "users ! i = req_user"
      "taskIndex users req_user taskId = Inr (i, tasks, findIndex (is_task taskId) tasks)"
    by blast
  have absent: "DELETE_task e users session taskId = (reject 404 ''Task not found'', users)"
    if "findIndex (is_task taskId) tasks = None"
    using that assms(1) i(3) by (simp add: DELETE_task_def delete_task_def)
  have present: "\<exists>users'. DELETE_task e users session taskId =
                 (\<lparr>status = 200, body = JObj [(''message'', JStr ''Task deleted'')], cookie = NoCookie\<rparr>,
                  users')
               \<and> GET_tasks users' session =
                   \<lparr>status = 200, body = JObj [(''tasks'', JArr (take j tasks @ drop (Suc j) tasks))],
                    cookie = NoCookie\<rparr>"
    if "findIndex (is_task taskId) tasks = Some j" "disk_ok e"
  proof -
    let ?rest = "JArr (take j tasks @ drop (Suc j) tasks)"
    have "authenticate (users[i := AList.update ''tasks'' ?rest (users ! i)]) session =
            Inr (AList.update ''tasks'' ?rest req_user)"
      using authenticate_after_write [OF assms(1) i(1)] .
    then have "GET_tasks (users[i := AList.update ''tasks'' ?rest (users ! i)]) session =
            \<lparr>status = 200, body = JObj [(''tasks'', ?rest)], cookie = NoCookie\<rparr>"
      by (simp add: GET_tasks_def list_tasks_array update_conv')
    with that assms(1) i(3) show ?thesis
      by (simp add: DELETE_task_def delete_task_def)
  qed
  from absent present show ?thesis by blast
qed

text \<open>Once the only task with an id is deleted, no task has the id.\<close>

lemma deleted_is_absent:
  assumes "findIndex P ts = Some j" and "\<forall>k < length ts. k \<noteq> j \<longrightarrow> \<not> P (ts ! k)"
  shows "findIndex P (take j ts @ drop (Suc j) ts) = None"
proof -
  from findIndex_Some [OF assms(1)] have j: "j < length ts" by simp
  have "\<not> P x" if mem: "x \<in> set (take j ts @ drop (Suc j) ts)" for x
  proof -
    from mem consider "x \<in> set (take j ts)" | "x \<in> set (drop (Suc j) ts)"
      by auto
    then obtain k where "k < length ts" "k \<noteq> j" "x = ts ! k"
    proof cases
      case 1
      then obtain i where "i < j" "x = ts ! i"
        using j by (auto simp add: in_set_conv_nth)
      with j show ?thesis by (intro that [of i]) simp_all
    next
      case 2
      then obtain i where "i < length ts - Suc j" "x = ts ! (Suc j + i)"
        by (auto simp add: in_set_conv_nth)
      then show ?thesis by (intro that [of "Suc j + i"]) auto
    qed
    with assms(2) show ?thesis by simp
  qed
  then show ?thesis by (simp add: findIndex_None)
qed

lemma userIndex_bob: "userIndex store0 bob = Some 1"
  by (simp add: userIndex_def store0_def has_id_def store0_ids)

lemma delete_bob:
  "DELETE_task env0 store0 (Some (session_of ''u2'')) ''t1'' =
     (reject 500 ''Failed to delete task'', store0)"
proof -
  have "map_of (store0 ! 1) ''tasks'' = None"
    by (simp add: store0_def bob_def)
  then have "taskIndex store0 bob ''t1'' = Inl TypeError"
    by (simp add: taskIndex_def userIndex_bob)
  then show ?thesis
    by (simp add: DELETE_task_def authenticate_bob delete_task_def)
qed

text \<open>
  C7.  Deleting an id that is absent from the caller's list answers 404: not for a caller
  whose record has no property \<^verbatim>\<open>tasks\<close>.  The list route reports an empty list for
  this user, so every id is absent from it, but the delete route reads
  \<^verbatim>\<open>users[userIndex].tasks.findIndex\<close> of undefined and answers 500.
\<close>

theorem delete_without_tasks:
  "GET_tasks store0 (Some (session_of ''u2'')) =
     \<lparr>status = 200, body = JObj [(''tasks'', JArr [])], cookie = NoCookie\<rparr>
   \<and> DELETE_task env0 store0 (Some (session_of ''u2'')) ''t1'' =
     (reject 500 ''Failed to delete task'', store0)
   \<and> status (reject 500 ''Failed to delete task'') = 500"
  using delete_bob
  by (simp add: GET_tasks_def authenticate_bob list_tasks_def bob_def or_else_def reject_def)

subsection \<open>Updates\<close>

lemma show_nat_0: "show_nat 0 = ''0''"
  by (simp add: show_nat.simps char_of_eq_iff take_bit_eq_mod)

lemma trimmed_or_empty_cases:
  "trimmed_or_empty v = Inr t \<Longrightarrow>
     (v = None \<or> v = Some JNull) \<and> t = [] \<or> (\<exists>s. v = Some (JStr s) \<and> t = trim s)"
  by (cases v rule: opt_trim.cases) (auto simp add: trimmed_or_empty_def)

lemma normalize_subTask_shape:
  assumes "normalize_subTask fresh st = Inr st'"
  shows "\<exists>t d. st' = JObj [(''id'', or_else (field st ''id'') (JStr fresh)), (''title'', JStr t),
                          (''description'', JStr d),
                          (''completed'', JBool (truthy (field st ''completed'')))]
           \<and> trimmed_or_empty (field st ''title'') = Inr t
           \<and> trimmed_or_empty (field st ''description'') = Inr d"
  using assms
  by (cases st) (auto simp add: normalize_subTask_def field_def split: sum.splits)

lemma normalize_subTasks_nth:
  "normalize_subTasks uuid n sts = Inr sts' \<Longrightarrow>
     length sts' = length sts \<and>
     (\<forall>k<length sts. normalize_subTask (uuid (n + length (filter calls_randomUUID (take k sts)))) (sts ! k)
          = Inr (sts' ! k))"
proof (induction sts arbitrary: n sts')
  case Nil
  then show ?case by simp
next
  case (Cons st sts)
  from Cons.prems obtain a rest where
    a: "normalize_subTask (uuid n) st = Inr a"
    and rest: "normalize_subTasks uuid (if calls_randomUUID st then Suc n else n) sts = Inr rest"
    and sts': "sts' = a # rest"
    by (auto split: sum.splits)
  from Cons.IH [OF rest] have len: "length rest = length sts"
    and nth: "\<And>k. k < length sts \<Longrightarrow>
        normalize_subTask
          (uuid ((if calls_randomUUID st then Suc n else n) + length (filter calls_randomUUID (take k sts))))
          (sts ! k) = Inr (rest ! k)"
    by simp_all
  have "normalize_subTask (uuid (n + length (filter calls_randomUUID (take k (st # sts))))) ((st # sts) ! k)
          = Inr (sts' ! k)" if "k < length (st # sts)" for k
  proof (cases k)
    case 0
    with a sts' show ?thesis by simp
  next
    case (Suc m)
    with that nth [of m] sts' show ?thesis by (cases "calls_randomUUID st") simp_all
  qed
  with len sts' show ?case by simp
qed

lemma findIndexE_Some:
  "findIndexE P xs = Inr (Some j) \<Longrightarrow> j < length xs \<and> P (xs ! j) = Inr True"
proof (induction xs arbitrary: j)
  case Nil
  then show ?case by simp
next
  case (Cons x xs)
  then show ?case
    by (auto simp add: nth_Cons split: sum.splits bool.splits nat.splits)
qed

lemma task_has_id_True:
  "task_has_id taskId t = Inr True \<Longrightarrow> \<exists>ob. t = JObj ob \<and> map_of ob ''id'' = Some (JStr taskId)"
  by (cases t) (auto simp add: task_has_id_def strict_eq_def)

lemma authenticate_rejects: "authenticate users session = Inl r \<Longrightarrow> status r = 401"
  by (auto simp add: authenticate_def reject_def reject_clear_def Let_def split: option.splits if_splits)

lemma update_succeeded:
  assumes "PUT_task e users session taskId updates = (r, users')" and "status r = 200"
  obtains req_user i tasks j original subTasks where
    "authenticate users session = Inr req_user"
    "userIndex users req_user = Some i"
    "map_of req_user ''tasks'' = Some (JArr tasks)"
    "j < length tasks" "tasks ! j = JObj original" "map_of original ''id'' = Some (JStr taskId)"
    "normalized e (chosen_subTasks original updates) = Inr subTasks"
    "r = \<lparr>status = 200,
          body = JObj [(''message'', JStr ''Task updated''),
                       (''task'', JObj (updatedTask original updates subTasks))],
          cookie = NoCookie\<rparr>"
    "users' = users[i := AList.update ''tasks''
                 (JArr (tasks[j := JObj (updatedTask original updates subTasks)])) (users ! i)]"
proof -
  from assms obtain req_user where auth: "authenticate users session = Inr req_user"
    and upd: "update_task e users req_user taskId updates = (r, users')"
    by (auto simp add: PUT_task_def dest: authenticate_rejects split: sum.splits)
  from authenticated_user [OF auth] obtain i where
    i: "userIndex users req_user = Some i" "users ! i = req_user"
    by blast
  from upd assms(2) obtain i' tasks j where
    ti: "taskIndex users req_user taskId = Inr (i', tasks, Some j)"
    by (auto simp add: update_task_def reject_def split: sum.splits option.splits)
  with i have i': "i' = i" and tasks: "map_of req_user ''tasks'' = Some (JArr tasks)"
    and j: "findIndexE (task_has_id taskId) tasks = Inr (Some j)"
    by (auto simp add: taskIndex_def split: option.splits json.splits sum.splits)
  from findIndexE_Some [OF j] have jlen: "j < length tasks"
    and "task_has_id taskId (tasks ! j) = Inr True"
    by simp_all
  with task_has_id_True obtain original where
    orig: "tasks ! j = JObj original" "map_of original ''id'' = Some (JStr taskId)"
    by blast
  from upd assms(2) ti orig(1) obtain subTasks where
    n: "normalized e (chosen_subTasks original updates) = Inr subTasks"
    and res: "r = \<lparr>status = 200,
          body = JObj [(''message'', JStr ''Task updated''),
                       (''task'', JObj (updatedTask original updates subTasks))],
          cookie = NoCookie\<rparr>"
      "users' = users[i' := AList.update ''tasks''
                 (JArr (tasks[j := JObj (updatedTask original updates subTasks)])) (users ! i')]"
    by (auto simp add: update_task_def reject_def own_props_def Let_def split: sum.splits if_splits)
  from auth i(1) tasks jlen orig n res show ?thesis
    unfolding i' by (rule that)
qed

lemma get_after_update:
  assumes "authenticate users session = Inr req_user" "userIndex users req_user = Some i"
  shows "GET_tasks (users[i := AList.update ''tasks'' (JArr ts) (users ! i)]) session =
           \<lparr>status = 200, body = JObj [(''tasks'', JArr ts)], cookie = NoCookie\<rparr>"
  using authenticate_after_write [OF assms, of "JArr ts"]
  by (simp add: GET_tasks_def list_tasks_array update_conv')

lemma normalize_subTask_properties:
  assumes "normalize_subTask fresh st = Inr st'"
  shows "(\<exists>i t d c. st' = JObj [(''id'', i), (''title'', JStr t), (''description'', JStr d),
                               (''completed'', JBool c)])
       \<and> (field st ''id'' = None \<longrightarrow> field st' ''id'' = Some (JStr fresh))
       \<and> (truthy (field st ''id'') \<longrightarrow> field st' ''id'' = field st ''id'')
       \<and> (\<forall>s. field st ''title'' = Some (JStr s) \<longrightarrow> field st' ''title'' = Some (JStr (trim s)))
       \<and> (field st ''title'' = None \<longrightarrow> field st' ''title'' = Some (JStr []))
       \<and> (\<forall>s. field st ''description'' = Some (JStr s) \<longrightarrow>
             field st' ''description'' = Some (JStr (trim s)))
       \<and> (field st ''description'' = None \<longrightarrow> field st' ''description'' = Some (JStr []))
       \<and> field st' ''completed'' = Some (JBool (truthy (field st ''completed'')))"
proof -
  from normalize_subTask_shape [OF assms] obtain t d where
    st': "st' = JObj [(''id'', or_else (field st ''id'') (JStr fresh)), (''title'', JStr t),
                      (''description'', JStr d),
                      (''completed'', JBool (truthy (field st ''completed'')))]"
    and t: "trimmed_or_empty (field st ''title'') = Inr t"
    and d: "trimmed_or_empty (field st ''description'') = Inr d"
    by blast
  have id1: "field st ''id'' = None \<Longrightarrow> field st' ''id'' = Some (JStr fresh)"
    by (simp add: st' field_def or_else_def)
  have id2: "truthy (field st ''id'') \<Longrightarrow> field st' ''id'' = field st ''id''"
    by (cases "field st ''id''") (simp_all add: st' field_def or_else_def)
  from trimmed_or_empty_cases [OF t] trimmed_or_empty_cases [OF d] id1 id2 show ?thesis
    by (auto simp add: st' field_def)
qed

text \<open>
  C4.  When an update whose body holds an array \<open>subTasks\<close> succeeds, the task that is
  answered and persisted holds one normalised subtask for each subtask sent, in the same
  order: an object with exactly the properties id, title, description and completed, where
  a missing id is replaced by a newly generated one (the next result of
  \<^verbatim>\<open>crypto.randomUUID\<close>) and a truthy id is kept, a title or description that is a
  string is trimmed and a missing one becomes the empty string, and completed is the
  boolean \<^verbatim>\<open>!!completed\<close>, true for every truthy value.
\<close>

theorem update_normalizes_subTasks:
  assumes "PUT_task e users session taskId req_body = (r, users')" and "status r = 200"
    and "map_of req_body ''subTasks'' = Some (JArr sts)"
  shows "\<exists>task tasks sts'.
      body r = JObj [(''message'', JStr ''Task updated''), (''task'', JObj task)]
    \<and> GET_tasks users' session =
        \<lparr>status = 200, body = JObj [(''tasks'', JArr tasks)], cookie = NoCookie\<rparr>
    \<and> JObj task \<in> set tasks
    \<and> map_of task ''subTasks'' = Some (JArr sts') \<and> length sts' = length sts
    \<and> (\<forall>k<length sts.
         (\<exists>i t d c. sts' ! k = JObj [(''id'', i), (''title'', JStr t), (''description'', JStr d),
                                     (''completed'', JBool c)])
       \<and> (field (sts ! k) ''id'' = None \<longrightarrow>
            field (sts' ! k) ''id'' =
              Some (JStr (uuids e (length (filter calls_randomUUID (take k sts))))))
       \<and> (truthy (field (sts ! k) ''id'') \<longrightarrow> field (sts' ! k) ''id'' = field (sts ! k) ''id'')
       \<and> (\<forall>s. field (sts ! k) ''title'' = Some (JStr s) \<longrightarrow>
            field (sts' ! k) ''title'' = Some (JStr (trim s)))
       \<and> (field (sts ! k) ''title'' = None \<longrightarrow> field (sts' ! k) ''title'' = Some (JStr []))
       \<and> (\<forall>s. field (sts ! k) ''description'' = Some (JStr s) \<longrightarrow>
            field (sts' ! k) ''description'' = Some (JStr (trim s)))
       \<and> (field (sts ! k) ''description'' = None \<longrightarrow>
            field (sts' ! k) ''description'' = Some (JStr []))
       \<and> field (sts' ! k) ''completed'' = Some (JBool (truthy (field (sts ! k) ''completed''))))"
proof (rule update_succeeded [OF assms(1,2)])
  fix req_user i tasks j original sts'
  assume auth: "authenticate users session = Inr req_user" "userIndex users req_user = Some i"
    and "map_of req_user ''tasks'' = Some (JArr tasks)"
    and j: "j < length tasks"
    and "tasks ! j = JObj original" "map_of original ''id'' = Some (JStr taskId)"
    and n: "normalized e (chosen_subTasks original req_body) = Inr sts'"
    and r: "r = \<lparr>status = 200,
          body = JObj [(''message'', JStr ''Task updated''),
                       (''task'', JObj (updatedTask original req_body sts'))],
          cookie = NoCookie\<rparr>"
    and u: "users' = users[i := AList.update ''tasks''
                 (JArr (tasks[j := JObj (updatedTask original req_body sts')])) (users ! i)]"
  let ?task = "updatedTask original req_body sts'"
  from n assms(3) have norm: "normalize_subTasks (uuids e) 0 sts = Inr sts'"
    by (simp add: normalized_def chosen_subTasks_def)
  from normalize_subTasks_nth [OF norm] have len: "length sts' = length sts"
    and nth: "\<And>k. k < length sts \<Longrightarrow>
       normalize_subTask (uuids e (length (filter calls_randomUUID (take k sts)))) (sts ! k)
         = Inr (sts' ! k)"
    by simp_all
  have get: "GET_tasks users' session =
        \<lparr>status = 200, body = JObj [(''tasks'', JArr (tasks[j := JObj ?task]))], cookie = NoCookie\<rparr>"
    unfolding u using auth by (rule get_after_update)
  have mem: "JObj ?task \<in> set (tasks[j := JObj ?task])"
    using j by (simp add: set_update_memI)
  have sub: "map_of ?task ''subTasks'' = Some (JArr sts')"
    by (simp add: updatedTask_def update_conv')
  have b: "body r = JObj [(''message'', JStr ''Task updated''), (''task'', JObj ?task)]"
    using r by simp
  have each: "\<forall>k<length sts.
         (\<exists>i t d c. sts' ! k = JObj [(''id'', i), (''title'', JStr t), (''description'', JStr d),
                                     (''completed'', JBool c)])
       \<and> (field (sts ! k) ''id'' = None \<longrightarrow>
            field (sts' ! k) ''id'' =
              Some (JStr (uuids e (length (filter calls_randomUUID (take k sts))))))
       \<and> (truthy (field (sts ! k) ''id'') \<longrightarrow> field (sts' ! k) ''id'' = field (sts ! k) ''id'')
       \<and> (\<forall>s. field (sts ! k) ''title'' = Some (JStr s) \<longrightarrow>
            field (sts' ! k) ''title'' = Some (JStr (trim s)))
       \<and> (field (sts ! k) ''title'' = None \<longrightarrow> field (sts' ! k) ''title'' = Some (JStr []))
       \<and> (\<forall>s. field (sts ! k) ''description'' = Some (JStr s) \<longrightarrow>
            field (sts' ! k) ''description'' = Some (JStr (trim s)))
       \<and> (field (sts ! k) ''description'' = None \<longrightarrow>
            field (sts' ! k) ''description'' = Some (JStr []))
       \<and> field (sts' ! k) ''completed'' = Some (JBool (truthy (field (sts ! k) ''completed'')))"
  proof (intro allI impI)
    fix k
    assume "k < length sts"
    from normalize_subTask_properties [OF nth [OF this]]
    show "(\<exists>i t d c. sts' ! k = JObj [(''id'', i), (''title'', JStr t), (''description'', JStr d),
                                     (''completed'', JBool c)])
       \<and> (field (sts ! k) ''id'' = None \<longrightarrow>
            field (sts' ! k) ''id'' =
              Some (JStr (uuids e (length (filter calls_randomUUID (take k sts))))))
       \<and> (truthy (field (sts ! k) ''id'') \<longrightarrow> field (sts' ! k) ''id'' = field (sts ! k) ''id'')
       \<and> (\<forall>s. field (sts ! k) ''title'' = Some (JStr s) \<longrightarrow>
            field (sts' ! k) ''title'' = Some (JStr (trim s)))
       \<and> (field (sts ! k) ''title'' = None \<longrightarrow> field (sts' ! k) ''title'' = Some (JStr []))
       \<and> (\<forall>s. field (sts ! k) ''description'' = Some (JStr s) \<longrightarrow>
            field (sts' ! k) ''description'' = Some (JStr (trim s)))
       \<and> (field (sts ! k) ''description'' = None \<longrightarrow>
            field (sts' ! k) ''description'' = Some (JStr []))
       \<and> field (sts' ! k) ''completed'' = Some (JBool (truthy (field (sts ! k) ''completed'')))" .
  qed
  show ?thesis
    using b get mem sub len each
    by (intro exI [of _ ?task] exI [of _ "tasks[j := JObj ?task]"] exI [of _ sts'])
      (rule conjI | assumption)+
qed

lemma update_task_succeeds:
  assumes "authenticate users session = Inr req_user"
    and "map_of req_user ''tasks'' = Some (JArr tasks)"
    and "findIndexE (task_has_id taskId) tasks = Inr (Some j)"
    and "tasks ! j = JObj original"
    and "normalized e (chosen_subTasks original updates) = Inr subTasks"
    and "disk_ok e"
  shows "\<exists>i. userIndex users req_user = Some i \<and>
     PUT_task e users session taskId updates =
       (\<lparr>status = 200,
         body = JObj [(''message'', JStr ''Task updated''),
                      (''task'', JObj (updatedTask original updates subTasks))],
         cookie = NoCookie\<rparr>,
        users[i := AList.update ''tasks''
                 (JArr (tasks[j := JObj (updatedTask original updates subTasks)])) (users ! i)])"
proof -
  from authenticated_user [OF assms(1)] obtain i where
    i: "userIndex users req_user = Some i" "users ! i = req_user"
    by blast
  with assms(2,3) have "taskIndex users req_user taskId = Inr (i, tasks, Some j)"
    by (simp add: taskIndex_def)
  with assms(1,4,5,6) i(1) show ?thesis
    by (simp add: PUT_task_def update_task_def own_props_def)
qed

lemma find_task1: "findIndexE (task_has_id ''t1'') [JObj task1] = Inr (Some 0)"
  by (simp add: task_has_id_def task1_def strict_eq_def)

lemma alice_tasks: "map_of alice ''tasks'' = Some (JArr [JObj task1])"
  by (simp add: alice_def)

lemma trim_eggs: "trim '' eggs '' = ''eggs''"
  by (simp add: trim_def white_space_def)

lemma normalized_eggs:
  "normalized env0 (chosen_subTasks task1 eggs_request) =
     Inr [JObj [(''id'', JStr ''uuid-0''), (''title'', JStr ''eggs''), (''description'', JStr []),
                (''completed'', JBool True)]]"
  by (simp add: normalized_def chosen_subTasks_def eggs_request_def normalize_subTask_def
      trimmed_or_empty_def trim_eggs or_else_def env0_def)

lemma put_eggs:
  "\<exists>r users'. PUT_task env0 store0 (Some (session_of ''u1'')) ''t1'' eggs_request = (r, users') \<and>
      status r = 200"
  using update_task_succeeds [OF authenticate_alice alice_tasks find_task1 _ normalized_eggs]
  by (auto simp add: env0_def)

text \<open>
  A subtask sent as \<^verbatim>\<open>{ title: " eggs ", completed: "yes" }\<close> is persisted with a
  generated id, the title \<^verbatim>\<open>eggs\<close>, an empty description and completed true.
\<close>

theorem update_normalizes_subTasks_witness:
  "\<exists>r users' task tasks sts'.
      PUT_task env0 store0 (Some (session_of ''u1'')) ''t1'' eggs_request = (r, users')
    \<and> status r = 200
    \<and> body r = JObj [(''message'', JStr ''Task updated''), (''task'', JObj task)]
    \<and> GET_tasks users' (Some (session_of ''u1'')) =
        \<lparr>status = 200, body = JObj [(''tasks'', JArr tasks)], cookie = NoCookie\<rparr>
    \<and> JObj task \<in> set tasks
    \<and> map_of task ''subTasks'' = Some (JArr sts') \<and> length sts' = 1
    \<and> field (sts' ! 0) ''id'' = Some (JStr ''uuid-0'')
    \<and> field (sts' ! 0) ''title'' = Some (JStr ''eggs'')
    \<and> field (sts' ! 0) ''description'' = Some (JStr [])
    \<and> field (sts' ! 0) ''completed'' = Some (JBool True)"
proof -
  let ?egg = "JObj [(''title'', JStr '' eggs ''), (''completed'', JStr ''yes'')]"
  from put_eggs obtain r users' where
    p: "PUT_task env0 store0 (Some (session_of ''u1'')) ''t1'' eggs_request = (r, users')"
      "status r = 200"
    by blast
  have s: "map_of eggs_request ''subTasks'' = Some (JArr [?egg])"
    by (simp add: eggs_request_def)
  from update_normalizes_subTasks [OF p s] obtain task tasks sts' where
    a: "body r = JObj [(''message'', JStr ''Task updated''), (''task'', JObj task)]"
      "GET_tasks users' (Some (session_of ''u1'')) =
        \<lparr>status = 200, body = JObj [(''tasks'', JArr tasks)], cookie = NoCookie\<rparr>"
      "JObj task \<in> set tasks"
      "map_of task ''subTasks'' = Some (JArr sts')" "length sts' = length [?egg]"
    and each: "\<forall>k<length [?egg].
         (\<exists>i t d c. sts' ! k = JObj [(''id'', i), (''title'', JStr t), (''description'', JStr d),
                                     (''completed'', JBool c)])
       \<and> (field ([?egg] ! k) ''id'' = None \<longrightarrow>
            field (sts' ! k) ''id'' =
              Some (JStr (uuids env0 (length (filter calls_randomUUID (take k [?egg]))))))
       \<and> (truthy (field ([?egg] ! k) ''id'') \<longrightarrow> field (sts' ! k) ''id'' = field ([?egg] ! k) ''id'')
       \<and> (\<forall>s. field ([?egg] ! k) ''title'' = Some (JStr s) \<longrightarrow>
            field (sts' ! k) ''title'' = Some (JStr (trim s)))
       \<and> (field ([?egg] ! k) ''title'' = None \<longrightarrow> field (sts' ! k) ''title'' = Some (JStr []))
       \<and> (\<forall>s. field ([?egg] ! k) ''description'' = Some (JStr s) \<longrightarrow>
            field (sts' ! k) ''description'' = Some (JStr (trim s)))
       \<and> (field ([?egg] ! k) ''description'' = None \<longrightarrow>
            field (sts' ! k) ''description'' = Some (JStr []))
       \<and> field (sts' ! k) ''completed'' = Some (JBool (truthy (field ([?egg] ! k) ''completed'')))"
    by (elim exE conjE) (rule that)
  from each have
    "field (sts' ! 0) ''id'' = Some (JStr ''uuid-0'')"
    "field (sts' ! 0) ''title'' = Some (JStr ''eggs'')"
    "field (sts' ! 0) ''description'' = Some (JStr [])"
    "field (sts' ! 0) ''completed'' = Some (JBool True)"
    by (simp_all add: field_def env0_def trim_eggs)
  with p a show ?thesis
    by (intro exI [of _ r] exI [of _ users'] exI [of _ task] exI [of _ tasks] exI [of _ sts']) simp
qed

subsection \<open>Merging an update\<close>

lemma spread_lookup:
  "distinct (map fst b) \<Longrightarrow>
   map_of (spread a b) k = (case map_of b k of None \<Rightarrow> map_of a k | Some v \<Rightarrow> Some v)"
proof (induction b arbitrary: a)
  case Nil
  then show ?case by (simp add: spread_def)
next
  case (Cons kv b)
  have step: "spread a (kv # b) = spread (AList.update (fst kv) (snd kv) a) b"
    by (simp add: spread_def)
  from Cons.prems have d: "distinct (map fst b)" and fresh: "fst kv \<notin> fst ` set b"
    by simp_all
  from fresh have none: "map_of b (fst kv) = None"
    by (simp add: map_of_eq_None_iff)
  show ?case
    unfolding step Cons.IH [OF d]
    by (cases kv) (use none in \<open>auto simp add: update_conv' split: option.splits\<close>)
qed

lemma updatedTask_id: "map_of (updatedTask original updates subTasks) ''id'' = map_of original ''id''"
  by (cases "map_of original ''id''")
    (simp_all add: updatedTask_def merged_task_def set_prop_def update_conv' delete_conv')

lemma updatedTask_other:
  assumes "distinct (map fst updates)" and "k \<noteq> ''id''" "k \<noteq> ''subTasks''" "k \<noteq> ''percentage''"
  shows "map_of (updatedTask original updates subTasks) k =
           (case map_of updates k of None \<Rightarrow> map_of original k | Some v \<Rightarrow> Some v)"
  using assms(2-4) spread_lookup [OF assms(1), of original k]
  by (cases "map_of original ''id''")
    (simp_all add: updatedTask_def merged_task_def set_prop_def update_conv' delete_conv')

lemma updatedTask_derived:
  "map_of (updatedTask original updates subTasks) ''subTasks'' = Some (JArr subTasks)"
  "map_of (updatedTask original updates subTasks) ''percentage'' =
     Some (JNum (show_nat (nat (calculatePercentage subTasks))))"
  by (simp_all add: updatedTask_def update_conv')

lemma update_task_not_found:
  assumes "authenticate users session = Inr req_user"
    and "map_of req_user ''tasks'' = Some (JArr tasks)" and "JNull \<notin> set tasks"
    and "findIndex (is_task taskId) tasks = None"
  shows "PUT_task e users session taskId updates = (reject 404 ''Task not found'', users)"
proof -
  from taskIndex_on_array [OF assms(1-3), of taskId] assms(4) obtain i where
    "taskIndex users req_user taskId = Inr (i, tasks, None)"
    by auto
  with assms(1) show ?thesis
    by (simp add: PUT_task_def update_task_def)
qed

text \<open>
  C8, as amended.  For every update that succeeds (the keys of the body being distinct):
  the task is the caller's first task with the id of the route, and it is replaced in place,
  the other tasks staying as they are; the persisted task keeps the stored id whatever id
  the body carries; every other property except subTasks and percentage has the value the
  body gives it, or its stored value when the body does not mention it; subTasks is always
  the normalisation of the body's subtasks or else of the stored ones, and percentage is
  always recomputed from them.  When the caller's record holds an array of tasks (none of
  them null) and none has the id, the answer is 404 and the store is unchanged.
\<close>

theorem update_merges:
  "(PUT_task e users session taskId updates = (r, users') \<and> status r = 200 \<and>
    distinct (map fst updates) \<longrightarrow>
      (\<exists>tasks j original updated subTasks.
          GET_tasks users session =
            \<lparr>status = 200, body = JObj [(''tasks'', JArr tasks)], cookie = NoCookie\<rparr>
        \<and> j < length tasks \<and> tasks ! j = JObj original
        \<and> map_of original ''id'' = Some (JStr taskId)
        \<and> body r = JObj [(''message'', JStr ''Task updated''), (''task'', JObj updated)]
        \<and> GET_tasks users' session =
            \<lparr>status = 200, body = JObj [(''tasks'', JArr (tasks[j := JObj updated]))],
             cookie = NoCookie\<rparr>
        \<and> map_of updated ''id'' = Some (JStr taskId)
        \<and> (\<forall>k. k \<noteq> ''id'' \<and> k \<noteq> ''subTasks'' \<and> k \<noteq> ''percentage'' \<longrightarrow>
              map_of updated k =
                (case map_of updates k of None \<Rightarrow> map_of original k | Some v \<Rightarrow> Some v))
        \<and> normalized e (chosen_subTasks original updates) = Inr subTasks
        \<and> map_of updated ''subTasks'' = Some (JArr subTasks)
        \<and> map_of updated ''percentage'' =
            Some (JNum (show_nat (nat (calculatePercentage subTasks))))))
   \<and> (authenticate users session = Inr req_user \<and>
      map_of req_user ''tasks'' = Some (JArr tasks0) \<and> JNull \<notin> set tasks0 \<and>
      findIndex (is_task taskId) tasks0 = None \<longrightarrow>
        PUT_task e users session taskId updates = (reject 404 ''Task not found'', users))"
proof (intro conjI impI)
  assume "PUT_task e users session taskId updates = (r, users') \<and> status r = 200 \<and>
    distinct (map fst updates)"
  then have put: "PUT_task e users session taskId updates = (r, users')" "status r = 200"
    and dist: "distinct (map fst updates)"
    by simp_all
  show "\<exists>tasks j original updated subTasks.
          GET_tasks users session =
            \<lparr>status = 200, body = JObj [(''tasks'', JArr tasks)], cookie = NoCookie\<rparr>
        \<and> j < length tasks \<and> tasks ! j = JObj original
        \<and> map_of original ''id'' = Some (JStr taskId)
        \<and> body r = JObj [(''message'', JStr ''Task updated''), (''task'', JObj updated)]
        \<and> GET_tasks users' session =
            \<lparr>status = 200, body = JObj [(''tasks'', JArr (tasks[j := JObj updated]))],
             cookie = NoCookie\<rparr>
        \<and> map_of updated ''id'' = Some (JStr taskId)
        \<and> (\<forall>k. k \<noteq> ''id'' \<and> k \<noteq> ''subTasks'' \<and> k \<noteq> ''percentage'' \<longrightarrow>
              map_of updated k =
                (case map_of updates k of None \<Rightarrow> map_of original k | Some v \<Rightarrow> Some v))
        \<and> normalized e (chosen_subTasks original updates) = Inr subTasks
        \<and> map_of updated ''subTasks'' = Some (JArr subTasks)
        \<and> map_of updated ''percentage'' =
            Some (JNum (show_nat (nat (calculatePercentage subTasks))))"
  proof (rule update_succeeded [OF put])
    fix req_user i tasks j original subTasks
    assume auth: "authenticate users session = Inr req_user" "userIndex users req_user = Some i"
      and tasks: "map_of req_user ''tasks'' = Some (JArr tasks)"
      and j: "j < length tasks" "tasks ! j = JObj original"
        "map_of original ''id'' = Some (JStr taskId)"
      and n: "normalized e (chosen_subTasks original updates) = Inr subTasks"
      and r: "r = \<lparr>status = 200,
          body = JObj [(''message'', JStr ''Task updated''),
                       (''task'', JObj (updatedTask original updates subTasks))],
          cookie = NoCookie\<rparr>"
      and u: "users' = users[i := AList.update ''tasks''
                 (JArr (tasks[j := JObj (updatedTask original updates subTasks)])) (users ! i)]"
    let ?updated = "updatedTask original updates subTasks"
    have before: "GET_tasks users session =
            \<lparr>status = 200, body = JObj [(''tasks'', JArr tasks)], cookie = NoCookie\<rparr>"
      using auth(1) tasks by (simp add: GET_tasks_def list_tasks_array)
    have b: "body r = JObj [(''message'', JStr ''Task updated''), (''task'', JObj ?updated)]"
      using r by simp
    have after: "GET_tasks users' session =
            \<lparr>status = 200, body = JObj [(''tasks'', JArr (tasks[j := JObj ?updated]))],
             cookie = NoCookie\<rparr>"
      unfolding u using auth by (rule get_after_update)
    have id: "map_of ?updated ''id'' = Some (JStr taskId)"
      using j(3) by (simp add: updatedTask_id)
    have other: "\<forall>k. k \<noteq> ''id'' \<and> k \<noteq> ''subTasks'' \<and> k \<noteq> ''percentage'' \<longrightarrow>
              map_of ?updated k =
                (case map_of updates k of None \<Rightarrow> map_of original k | Some v \<Rightarrow> Some v)"
      using updatedTask_other [OF dist] by blast
    show ?thesis
      using before j b after id other n updatedTask_derived [of original updates subTasks]
      by (intro exI [of _ tasks] exI [of _ j] exI [of _ original] exI [of _ ?updated]
          exI [of _ subTasks]) (rule conjI | assumption)+
  qed
next
  assume "authenticate users session = Inr req_user \<and>
      map_of req_user ''tasks'' = Some (JArr tasks0) \<and> JNull \<notin> set tasks0 \<and>
      findIndex (is_task taskId) tasks0 = None"
  then show "PUT_task e users session taskId updates = (reject 404 ''Task not found'', users)"
    using update_task_not_found by blast
qed

lemma trim_milk: "trim '' milk '' = ''milk''"
  by (simp add: trim_def white_space_def)

lemma trim_two_litres: "trim ''two litres'' = ''two litres''"
  by (simp add: trim_def white_space_def)

lemma normalized_rename:
  "normalized env0 (chosen_subTasks task1 rename_request) =
     Inr [JObj [(''id'', JStr ''s1''), (''title'', JStr ''milk''), (''description'', JStr ''two litres''),
                (''completed'', JBool False)]]"
  by (simp add: normalized_def chosen_subTasks_def rename_request_def task1_def subtask1_def
      normalize_subTask_def trimmed_or_empty_def trim_milk trim_two_litres or_else_def)

lemma percentage_none_of_one:
  "calculatePercentage [JObj [(''id'', JStr ''s1''), (''title'', JStr ''milk''),
       (''description'', JStr ''two litres''), (''completed'', JBool False)]] = 0"
  by (simp add: calculatePercentage_def completed_def js_div_def js_mul_def to_double_def
      Math_round_def)

lemma updatedTask_rename:
  "updatedTask task1 rename_request
     [JObj [(''id'', JStr ''s1''), (''title'', JStr ''milk''), (''description'', JStr ''two litres''),
            (''completed'', JBool False)]] = task1_renamed"
  by (simp add: updatedTask_def percentage_none_of_one show_nat_0 merged_task_def spread_def
      set_prop_def rename_request_def task1_def task1_renamed_def)

lemma userIndex_alice: "userIndex store0 alice = Some 0"
  by (simp add: userIndex_def store0_def has_id_def store0_ids)

lemma put_rename:
  "PUT_task env0 store0 (Some (session_of ''u1'')) ''t1'' rename_request =
     (\<lparr>status = 200,
       body = JObj [(''message'', JStr ''Task updated''), (''task'', JObj task1_renamed)],
       cookie = NoCookie\<rparr>,
      [AList.update ''tasks'' (JArr [JObj task1_renamed]) alice, bob])"
proof -
  have d: "disk_ok env0" by (simp add: env0_def)
  have t: "[JObj task1] ! 0 = JObj task1" by simp
  from update_task_succeeds [OF authenticate_alice alice_tasks find_task1 t normalized_rename d]
  have "PUT_task env0 store0 (Some (session_of ''u1'')) ''t1'' rename_request =
     (\<lparr>status = 200,
       body = JObj [(''message'', JStr ''Task updated''), (''task'', JObj task1_renamed)],
       cookie = NoCookie\<rparr>,
      store0[0 := AList.update ''tasks'' (JArr [JObj task1_renamed]) (store0 ! 0)])"
    by (simp add: userIndex_alice updatedTask_rename)
  then show ?thesis
    by (simp add: store0_def)
qed

text \<open>
  C8 as stated has every property that the body does not mention keep its stored value: the
  body of the renaming does not mention subTasks, and the stored subtask title
  \<^verbatim>\<open>" milk "\<close> is persisted trimmed.
\<close>

theorem update_renormalizes_counterexample:
  "map_of rename_request ''subTasks'' = None
   \<and> map_of task1 ''subTasks'' = Some (JArr [subtask1])
   \<and> PUT_task env0 store0 (Some (session_of ''u1'')) ''t1'' rename_request =
       (\<lparr>status = 200,
         body = JObj [(''message'', JStr ''Task updated''), (''task'', JObj task1_renamed)],
         cookie = NoCookie\<rparr>,
        [AList.update ''tasks'' (JArr [JObj task1_renamed]) alice, bob])
   \<and> map_of task1_renamed ''subTasks'' \<noteq> map_of task1 ''subTasks''"
  using put_rename
  by (simp add: rename_request_def task1_def task1_renamed_def subtask1_def)

text \<open>
  Renaming the sample task with a body that also carries another id; and an update of a
  task that the caller does not have.
\<close>

theorem update_merges_witness:
  "map_of rename_request ''id'' = Some (JStr ''t9'')
   \<and> (\<exists>r users' updated.
        PUT_task env0 store0 (Some (session_of ''u1'')) ''t1'' rename_request = (r, users')
      \<and> status r = 200
      \<and> body r = JObj [(''message'', JStr ''Task updated''), (''task'', JObj updated)]
      \<and> map_of updated ''id'' = Some (JStr ''t1'')
      \<and> map_of updated ''title'' = Some (JStr ''Groceries''))
   \<and> PUT_task env0 store0 (Some (session_of ''u1'')) ''t7'' rename_request =
       (reject 404 ''Task not found'', store0)"
proof -
  let ?r = "\<lparr>status = 200,
       body = JObj [(''message'', JStr ''Task updated''), (''task'', JObj task1_renamed)],
       cookie = NoCookie\<rparr>"
  let ?users' = "[AList.update ''tasks'' (JArr [JObj task1_renamed]) alice, bob]"
  have hyp: "PUT_task env0 store0 (Some (session_of ''u1'')) ''t1'' rename_request = (?r, ?users') \<and>
      status ?r = 200 \<and> distinct (map fst rename_request)"
    using put_rename by (simp add: rename_request_def)
  from update_merges [of env0 store0 "Some (session_of ''u1'')" "''t1''" rename_request ?r ?users',
      THEN conjunct1, THEN mp, OF hyp]
  obtain updated original where
    u: "body ?r = JObj [(''message'', JStr ''Task updated''), (''task'', JObj updated)]"
      "map_of updated ''id'' = Some (JStr ''t1'')"
    and other: "\<forall>k. k \<noteq> ''id'' \<and> k \<noteq> ''subTasks'' \<and> k \<noteq> ''percentage'' \<longrightarrow>
              map_of updated k =
                (case map_of rename_request k of None \<Rightarrow> map_of original k | Some v \<Rightarrow> Some v)"
    by (elim exE conjE) (rule that)
  from other have title: "map_of updated ''title'' = Some (JStr ''Groceries'')"
    by (simp add: rename_request_def)
  have first: "\<exists>r users' updated.
        PUT_task env0 store0 (Some (session_of ''u1'')) ''t1'' rename_request = (r, users')
      \<and> status r = 200
      \<and> body r = JObj [(''message'', JStr ''Task updated''), (''task'', JObj updated)]
      \<and> map_of updated ''id'' = Some (JStr ''t1'')
      \<and> map_of updated ''title'' = Some (JStr ''Groceries'')"
    using hyp u title
    by (intro exI [of _ ?r] exI [of _ ?users'] exI [of _ updated]) simp
  have absent: "authenticate store0 (Some (session_of ''u1'')) = Inr alice \<and>
      map_of alice ''tasks'' = Some (JArr [JObj task1]) \<and> JNull \<notin> set [JObj task1] \<and>
      findIndex (is_task ''t7'') [JObj task1] = None"
    by (simp add: authenticate_alice alice_tasks is_task_def field_def task1_def)
  have second: "PUT_task env0 store0 (Some (session_of ''u1'')) ''t7'' rename_request =
       (reject 404 ''Task not found'', store0)"
    using update_merges [of env0 store0 "Some (session_of ''u1'')" "''t7''" rename_request ?r ?users'
      alice "[JObj task1]", THEN conjunct2, THEN mp, OF absent] .
  have "map_of rename_request ''id'' = Some (JStr ''t9'')"
    by (simp add: rename_request_def)
  with first second show ?thesis by blast
qed

subsection \<open>Percentage\<close>

lemma double_23_40: "js_div 23 40 = (5179139571476070, 9007199254740992)"
  by (simp add: js_div_def to_double_def binade_def bitlen.simps div_ties_even_def Let_def)

lemma double_23_40_times_100:
  "js_mul (5179139571476070, 9007199254740992) 100 = (8092405580431359, 140737488355328)"
  by (simp add: js_mul_def to_double_def binade_def bitlen.simps div_ties_even_def Let_def)

lemma percentage_forty: "calculatePercentage forty_subTasks = 57"
  by (simp add: calculatePercentage_def forty_subTasks_def completed_def done_subTask_def
      open_subTask_def double_23_40 double_23_40_times_100 Math_round_def Let_def)

lemma spec_percentage_forty: "spec_percentage forty_subTasks = 58"
  by (simp add: spec_percentage_def forty_subTasks_def completed_def done_subTask_def
      open_subTask_def Let_def)

lemma show_nat_57: "show_nat 57 = ''57''"
  by (simp add: show_nat.simps char_of_eq_iff take_bit_eq_mod)

lemma calculatePercentage_empty: "calculatePercentage [] = 0"
  by (simp add: calculatePercentage_def)

text \<open>The example of the specification: 2 of 3 completed is 67.\<close>

lemma percentage_2_of_3:
  "calculatePercentage [done_subTask, done_subTask, open_subTask] = 67"
  "spec_percentage [done_subTask, done_subTask, open_subTask] = 67"
  by (simp_all add: calculatePercentage_def spec_percentage_def completed_def done_subTask_def
      open_subTask_def js_div_def js_mul_def to_double_def binade_def bitlen.simps
      div_ties_even_def Math_round_def Let_def)

text \<open>Subtasks in normal form are left as they are by the normalisation.\<close>

lemma normalize_replicate:
  "normalize_subTask (uuid n) x = Inr x \<Longrightarrow> \<not> calls_randomUUID x \<Longrightarrow>
   normalize_subTasks uuid n (replicate k x @ rest) =
     (case normalize_subTasks uuid n rest of Inl err \<Rightarrow> Inl err | Inr rest' \<Rightarrow> Inr (replicate k x @ rest'))"
  by (induction k) (auto split: sum.splits)

lemma trim_words:
  "trim ''done'' = ''done''" "trim ''finished'' = ''finished''"
  "trim ''open'' = ''open''" "trim ''pending'' = ''pending''"
  by (simp_all add: trim_def white_space_def)

lemma normalize_samples:
  "normalize_subTask f done_subTask = Inr done_subTask"
  "normalize_subTask f open_subTask = Inr open_subTask"
  "\<not> calls_randomUUID done_subTask" "\<not> calls_randomUUID open_subTask"
  by (simp_all add: normalize_subTask_def done_subTask_def open_subTask_def trimmed_or_empty_def
      trim_words or_else_def calls_randomUUID_def)

lemma normalized_forty:
  "normalized env0 (chosen_subTasks task1 [(''subTasks'', JArr forty_subTasks)]) = Inr forty_subTasks"
proof -
  have "normalize_subTasks (uuids env0) 0 (replicate 17 open_subTask @ []) = Inr (replicate 17 open_subTask @ [])"
    by (subst normalize_replicate) (simp_all add: normalize_samples)
  then have "normalize_subTasks (uuids env0) 0 forty_subTasks = Inr forty_subTasks"
    unfolding forty_subTasks_def by (subst normalize_replicate) (simp_all add: normalize_samples)
  then show ?thesis
    by (simp add: normalized_def chosen_subTasks_def)
qed

text \<open>
  C1.  After every update the stored percentage is \<open>round (100 * completed / total)\<close>
  of the stored subtasks: not for 23 completed subtasks of 40.  The exact ratio is 57.5,
  which rounds to 58 (also when \<^verbatim>\<open>100 * 23 / 40\<close> is computed in doubles); the code
  divides first, the double nearest to 23/40 is a little below it, times 100 it is the
  double 57.49999999999999, and \<^verbatim>\<open>Math.round\<close> takes that to 57, which the update
  persists.
\<close>

theorem percentage_23_of_40:
  "length forty_subTasks = 40 \<and> length (filter completed forty_subTasks) = 23
   \<and> (\<exists>updated users'.
        PUT_task env0 store0 (Some (session_of ''u1'')) ''t1'' [(''subTasks'', JArr forty_subTasks)] =
          (\<lparr>status = 200,
            body = JObj [(''message'', JStr ''Task updated''), (''task'', JObj updated)],
            cookie = NoCookie\<rparr>, users')
      \<and> map_of updated ''subTasks'' = Some (JArr forty_subTasks)
      \<and> map_of updated ''percentage'' = Some (JNum ''57''))
   \<and> calculatePercentage forty_subTasks = 57
   \<and> spec_percentage forty_subTasks = 58
   \<and> Math_round (js_div (100 * 23) 40) = 58"
proof -
  let ?updated = "updatedTask task1 [(''subTasks'', JArr forty_subTasks)] forty_subTasks"
  have d: "disk_ok env0" by (simp add: env0_def)
  have t: "[JObj task1] ! 0 = JObj task1" by simp
  from update_task_succeeds [OF authenticate_alice alice_tasks find_task1 t normalized_forty d]
  obtain users' where
    "PUT_task env0 store0 (Some (session_of ''u1'')) ''t1'' [(''subTasks'', JArr forty_subTasks)] =
          (\<lparr>status = 200,
            body = JObj [(''message'', JStr ''Task updated''), (''task'', JObj ?updated)],
            cookie = NoCookie\<rparr>, users')"
    by blast
  moreover have "map_of ?updated ''subTasks'' = Some (JArr forty_subTasks)"
    "map_of ?updated ''percentage'' = Some (JNum ''57'')"
    by (simp_all add: updatedTask_derived percentage_forty show_nat_57)
  moreover have "length forty_subTasks = 40" "length (filter completed forty_subTasks) = 23"
    by (simp_all add: forty_subTasks_def completed_def done_subTask_def open_subTask_def)
  moreover have "Math_round (js_div (100 * 23) 40) = 58"
    by (simp add: js_div_def to_double_def binade_def bitlen.simps div_ties_even_def Math_round_def
        Let_def)
  ultimately show ?thesis
    using percentage_forty spec_percentage_forty by blast
qed

subsection \<open>Progress ring\<close>

text \<open>
  C6, as amended.  The colour is a function of the percentage alone: green for every
  percentage above 50, red for every percentage of 50 or less.
\<close>

theorem progress_colour_threshold:
  "(50 < p \<longrightarrow> progress_colour p = green) \<and> (p \<le> 50 \<longrightarrow> progress_colour p = red)"
  by (simp add: progress_colour_def)

theorem progress_colour_threshold_witness:
  "progress_colour 51 = green \<and> progress_colour 50 = red \<and> progress_colour 49 = red"
  using progress_colour_threshold [of 51] progress_colour_threshold [of 50]
    progress_colour_threshold [of 49]
  by simp

text \<open>C6 as stated asks for green at 50: the ring is red there.\<close>

theorem progress_colour_50_counterexample:
  "(50::rat) \<ge> 50 \<and> progress_colour 50 \<noteq> green"
  by (simp add: progress_colour_def green_def red_def)

end
